theory Spec2Isabelle
  imports Complex_Main
begin

section \<open>The Observatory island kernel (observatory\_island\_authentic.py)\<close>

text \<open>
  The embedding follows \<^verbatim>\<open>public/models/observatory_island_authentic.py\<close>.
  The numbers of the program are read in two ways.

  For what the program computes, Python floats are real numbers (\<^typ>\<open>real\<close>):
  \<^verbatim>\<open>math.sqrt\<close>, \<^verbatim>\<open>math.sin\<close>, \<^verbatim>\<open>math.cos\<close> and \<^verbatim>\<open>math.pi\<close> are the functions and
  the constant of analysis. In this reading the only exceptions are a division by zero
  and the square root of a negative number.

  For what the program raises, the height function is embedded a second time over
  doubles with overflow (\<open>pyfloat\<close> below): a result beyond the largest double is an
  infinity, and \<^verbatim>\<open>math.sin\<close>, \<^verbatim>\<open>math.cos\<close> and \<^verbatim>\<open>pow\<close> raise where Python's do.
  Rounding is modelled in neither reading.
\<close>

subsection \<open>Errors and the arithmetic that can raise\<close>

datatype error = ZeroDivisionError | ValueError | OverflowError

definition math_sqrt :: "real \<Rightarrow> error + real" where
  "math_sqrt v = (if v < 0 then Inl ValueError else Inr (sqrt v))"

definition py_div :: "real \<Rightarrow> real \<Rightarrow> error + real" where
  "py_div a b = (if b = 0 then Inl ZeroDivisionError else Inr (a / b))"

subsection \<open>The generator object\<close>

record terrain_params =
  hill_height :: real
  hill_radius :: real
  island_radius :: real
  edge_height :: real
  edge_falloff :: real
  waterfall_start :: real
  base_ground_level :: real

record generator =
  terrain_params :: terrain_params
  segments :: int
  total_size :: int



definition new_generator :: generator where
  "new_generator =
     \<lparr> terrain_params =
             \<lparr> hill_height = 15, hill_radius = 100, island_radius = 220,
               edge_height = 8, edge_falloff = 30, waterfall_start = 210,
               base_ground_level = - 5 \<rparr>,
           segments = 128, total_size = 500 \<rparr>"

subsection \<open>Surface noise\<close>

record octave =
  freq :: real
  amp :: real
  angle_x :: real
  angle_z :: real
  phase_x :: real
  phase_z :: real

definition octaves :: "octave list" where
  "octaves =
     [ \<lparr> freq = 0.08, amp = 0.25, angle_x = pi / 7.3, angle_z = pi / 3.7,
         phase_x = 2.1, phase_z = 5.8 \<rparr>,
       \<lparr> freq = 0.15, amp = 0.15, angle_x = pi / 2.8, angle_z = pi / 5.2,
         phase_x = 1.7, phase_z = 3.4 \<rparr>,
       \<lparr> freq = 0.32, amp = 0.08, angle_x = pi / 4.1, angle_z = pi / 6.9,
         phase_x = 4.2, phase_z = 1.9 \<rparr>,
       \<lparr> freq = 0.67, amp = 0.04, angle_x = pi / 1.9, angle_z = pi / 8.3,
         phase_x = 0.9, phase_z = 6.1 \<rparr>,
       \<lparr> freq = 1.23, amp = 0.02, angle_x = pi / 3.4, angle_z = pi / 2.1,
         phase_x = 3.8, phase_z = 2.7 \<rparr> ]"

text \<open>The loop \<^verbatim>\<open>for octave in octaves\<close>, with the accumulator \<^verbatim>\<open>noise\<close>.\<close>

fun noise_loop :: "octave list \<Rightarrow> real \<Rightarrow> real \<Rightarrow> real \<Rightarrow> real" where
  "noise_loop [] x z noise = noise"
| "noise_loop (octave # rest) x z noise =
     (let x1 = x * cos (angle_x octave) - z * sin (angle_x octave);
          z1 = x * sin (angle_z octave) + z * cos (angle_z octave);
          noise_value = sin ((x1 + phase_x octave) * freq octave)
                        * cos ((z1 + phase_z octave) * freq octave)
      in noise_loop rest x z (noise + noise_value * amp octave))"

text \<open>\<^verbatim>\<open>get_surface_noise(self, x, z)\<close>; \<^verbatim>\<open>self\<close> is not read.\<close>

definition get_surface_noise :: "real \<Rightarrow> real \<Rightarrow> real" where
  "get_surface_noise x z = noise_loop octaves x z 0"

subsection \<open>Terrain height\<close>

definition calculate_terrain_height :: "generator \<Rightarrow> real \<Rightarrow> real \<Rightarrow> error + real" where
  "calculate_terrain_height self x z =
     (case math_sqrt (x * x + z * z) of
        Inl e \<Rightarrow> Inl e
      | Inr distance_from_center \<Rightarrow>
          (case (if distance_from_center < hill_radius (terrain_params self)
                 then (case py_div distance_from_center (hill_radius (terrain_params self)) of
                         Inl e \<Rightarrow> Inl e
                       | Inr q \<Rightarrow>
                           (let height_multiplier = cos (q * pi * 0.5)
                            in Inr (base_ground_level (terrain_params self)
                                    + hill_height (terrain_params self)
                                      * height_multiplier * height_multiplier)))
                 else Inr (base_ground_level (terrain_params self))) of
             Inl e \<Rightarrow> Inl e
           | Inr height0 \<Rightarrow>
               (let height1 =
                      (if distance_from_center \<ge> island_radius (terrain_params self)
                       then (let void_distance =
                                   distance_from_center - island_radius (terrain_params self)
                             in base_ground_level (terrain_params self)
                                - (void_distance * 0.1) ^ 2)
                       else height0)
                in Inr (height1 + get_surface_noise x z))))"

text \<open>
  The height without its noise term, as a function of the distance alone. It is not a
  function of the source: it names the value \<^verbatim>\<open>height\<close> holds just before
  \<^verbatim>\<open>height += self.get_surface_noise(x, z)\<close>, and the lemma
  \<open>calculate_terrain_height_total\<close> below ties it to the code.
\<close>

definition shape_at_distance :: "terrain_params \<Rightarrow> real \<Rightarrow> real" where
  "shape_at_distance p d =
     (if d \<ge> island_radius p
      then base_ground_level p - ((d - island_radius p) * 0.1) ^ 2
      else if d < hill_radius p
           then base_ground_level p
                + hill_height p * cos (d / hill_radius p * pi * 0.5)
                  * cos (d / hill_radius p * pi * 0.5)
           else base_ground_level p)"

subsection \<open>Doubles with overflow\<close>

text \<open>
  A Python float is a finite number, an infinity or a NaN. An arithmetic result whose
  exact value lies beyond \<^verbatim>\<open>sys.float_info.max\<close> is an infinity; within the range it is
  kept exact (no rounding, no underflow, no signed zero).
\<close>

datatype pyfloat = Finite real | PosInf | NegInf | NaN

definition max_float :: real where
  "max_float = (2 - 1 / 2 ^ 52) * 2 ^ 1023"

definition overflow :: "real \<Rightarrow> pyfloat" where
  "overflow r = (if r > max_float then PosInf else if r < - max_float then NegInf else Finite r)"

fun fneg :: "pyfloat \<Rightarrow> pyfloat" where
  "fneg (Finite a) = Finite (- a)"
| "fneg PosInf = NegInf"
| "fneg NegInf = PosInf"
| "fneg NaN = NaN"

fun fadd :: "pyfloat \<Rightarrow> pyfloat \<Rightarrow> pyfloat" where
  "fadd NaN b = NaN"
| "fadd a NaN = NaN"
| "fadd (Finite a) (Finite b) = overflow (a + b)"
| "fadd PosInf NegInf = NaN"
| "fadd NegInf PosInf = NaN"
| "fadd PosInf b = PosInf"
| "fadd a PosInf = PosInf"
| "fadd NegInf b = NegInf"
| "fadd a NegInf = NegInf"

definition fsub :: "pyfloat \<Rightarrow> pyfloat \<Rightarrow> pyfloat" where
  "fsub a b = fadd a (fneg b)"

text \<open>The product of an infinity and a finite number: NaN at zero, else by the signs.\<close>

definition inf_times :: "bool \<Rightarrow> real \<Rightarrow> pyfloat" where
  "inf_times positive b =
     (if b = 0 then NaN else if (0 < b) = positive then PosInf else NegInf)"

fun fmul :: "pyfloat \<Rightarrow> pyfloat \<Rightarrow> pyfloat" where
  "fmul NaN b = NaN"
| "fmul a NaN = NaN"
| "fmul (Finite a) (Finite b) = overflow (a * b)"
| "fmul (Finite a) PosInf = inf_times True a"
| "fmul (Finite a) NegInf = inf_times False a"
| "fmul PosInf (Finite b) = inf_times True b"
| "fmul NegInf (Finite b) = inf_times False b"
| "fmul PosInf PosInf = PosInf"
| "fmul PosInf NegInf = NegInf"
| "fmul NegInf PosInf = NegInf"
| "fmul NegInf NegInf = PosInf"

text \<open>\<^verbatim>\<open>a / b\<close>: a zero divisor raises before anything else is looked at.\<close>

fun py_truediv :: "pyfloat \<Rightarrow> pyfloat \<Rightarrow> error + pyfloat" where
  "py_truediv a (Finite b) =
     (if b = 0 then Inl ZeroDivisionError
      else (case a of
              Finite a' \<Rightarrow> Inr (overflow (a' / b))
            | PosInf \<Rightarrow> Inr (if 0 < b then PosInf else NegInf)
            | NegInf \<Rightarrow> Inr (if 0 < b then NegInf else PosInf)
            | NaN \<Rightarrow> Inr NaN))"
| "py_truediv a NaN = Inr NaN"
| "py_truediv (Finite a) b = Inr (Finite 0)"
| "py_truediv a b = Inr NaN"

text \<open>\<^verbatim>\<open>a < b\<close> and \<^verbatim>\<open>a >= b\<close>: every comparison with a NaN is false.\<close>

fun flt :: "pyfloat \<Rightarrow> pyfloat \<Rightarrow> bool" where
  "flt NaN b = False"
| "flt a NaN = False"
| "flt (Finite a) (Finite b) = (a < b)"
| "flt PosInf b = False"
| "flt a PosInf = True"
| "flt a NegInf = False"
| "flt NegInf b = True"

definition fge :: "pyfloat \<Rightarrow> pyfloat \<Rightarrow> bool" where
  "fge a b = (a \<noteq> NaN \<and> b \<noteq> NaN \<and> \<not> flt a b)"

fun math_sqrt_float :: "pyfloat \<Rightarrow> error + pyfloat" where
  "math_sqrt_float (Finite v) = (if v < 0 then Inl ValueError else Inr (Finite (sqrt v)))"
| "math_sqrt_float PosInf = Inr PosInf"
| "math_sqrt_float NegInf = Inl ValueError"
| "math_sqrt_float NaN = Inr NaN"

fun math_sin :: "pyfloat \<Rightarrow> error + pyfloat" where
  "math_sin (Finite v) = Inr (Finite (sin v))"
| "math_sin NaN = Inr NaN"
| "math_sin a = Inl ValueError"

fun math_cos :: "pyfloat \<Rightarrow> error + pyfloat" where
  "math_cos (Finite v) = Inr (Finite (cos v))"
| "math_cos NaN = Inr NaN"
| "math_cos a = Inl ValueError"

text \<open>\<^verbatim>\<open>pow(v, 2)\<close>: a finite base whose square is out of range raises.\<close>

fun py_pow2 :: "pyfloat \<Rightarrow> error + pyfloat" where
  "py_pow2 (Finite v) = (if v ^ 2 > max_float then Inl OverflowError else Inr (Finite (v ^ 2)))"
| "py_pow2 NaN = Inr NaN"
| "py_pow2 a = Inr PosInf"

text \<open>\<^verbatim>\<open>get_surface_noise\<close> over doubles; the sine is taken before the cosine.\<close>

fun noise_loop_float :: "octave list \<Rightarrow> pyfloat \<Rightarrow> pyfloat \<Rightarrow> pyfloat \<Rightarrow> error + pyfloat" where
  "noise_loop_float [] x z noise = Inr noise"
| "noise_loop_float (octave # rest) x z noise =
     (let x1 = fsub (fmul x (Finite (cos (angle_x octave))))
                    (fmul z (Finite (sin (angle_x octave))));
          z1 = fadd (fmul x (Finite (sin (angle_z octave))))
                    (fmul z (Finite (cos (angle_z octave))))
      in (case math_sin (fmul (fadd x1 (Finite (phase_x octave))) (Finite (freq octave))) of
            Inl e \<Rightarrow> Inl e
          | Inr s \<Rightarrow>
              (case math_cos (fmul (fadd z1 (Finite (phase_z octave))) (Finite (freq octave))) of
                 Inl e \<Rightarrow> Inl e
               | Inr c \<Rightarrow>
                   noise_loop_float rest x z
                     (fadd noise (fmul (fmul s c) (Finite (amp octave)))))))"

definition get_surface_noise_float :: "pyfloat \<Rightarrow> pyfloat \<Rightarrow> error + pyfloat" where
  "get_surface_noise_float x z = noise_loop_float octaves x z (Finite 0)"

text \<open>\<^verbatim>\<open>calculate_terrain_height\<close> over doubles, statement by statement.\<close>

definition calculate_terrain_height_float :: "generator \<Rightarrow> pyfloat \<Rightarrow> pyfloat \<Rightarrow> error + pyfloat" where
  "calculate_terrain_height_float self x z =
     (case math_sqrt_float (fadd (fmul x x) (fmul z z)) of
        Inl e \<Rightarrow> Inl e
      | Inr distance_from_center \<Rightarrow>
          (case (if flt distance_from_center (Finite (hill_radius (terrain_params self)))
                 then (case py_truediv distance_from_center
                              (Finite (hill_radius (terrain_params self))) of
                         Inl e \<Rightarrow> Inl e
                       | Inr q \<Rightarrow>
                           (case math_cos (fmul (fmul q (Finite pi)) (Finite 0.5)) of
                              Inl e \<Rightarrow> Inl e
                            | Inr height_multiplier \<Rightarrow>
                                Inr (fadd (Finite (base_ground_level (terrain_params self)))
                                       (fmul (fmul (Finite (hill_height (terrain_params self)))
                                                height_multiplier)
                                          height_multiplier))))
                 else Inr (Finite (base_ground_level (terrain_params self)))) of
             Inl e \<Rightarrow> Inl e
           | Inr height0 \<Rightarrow>
               (case (if fge distance_from_center (Finite (island_radius (terrain_params self)))
                      then (let void_distance =
                                  fsub distance_from_center
                                    (Finite (island_radius (terrain_params self)))
                            in (case py_pow2 (fmul void_distance (Finite 0.1)) of
                                  Inl e \<Rightarrow> Inl e
                                | Inr squared \<Rightarrow>
                                    Inr (fsub (Finite (base_ground_level (terrain_params self)))
                                           squared)))
                      else Inr height0) of
                  Inl e \<Rightarrow> Inl e
                | Inr height1 \<Rightarrow>
                    (case get_surface_noise_float x z of
                       Inl e \<Rightarrow> Inl e
                     | Inr noise \<Rightarrow> Inr (fadd height1 noise)))))"

subsection \<open>Terrain texture\<close>

type_synonym color = "real \<times> real \<times> real \<times> real"

fun lerp_color :: "color \<Rightarrow> color \<Rightarrow> real \<Rightarrow> color" where
  "lerp_color (r1, g1, b1, a1) (r2, g2, b2, a2) t =
     (r1 + (r2 - r1) * t, g1 + (g2 - g1) * t, b1 + (b2 - b1) * t, 1.0)"

text \<open>
  The \<^verbatim>\<open>if\<close>/\<^verbatim>\<open>elif\<close> chain of \<^verbatim>\<open>create_detailed_terrain_texture\<close> that picks the
  base colour of a pixel from \<^verbatim>\<open>normalized_dist\<close> (lines 221 to 254).
\<close>

definition gradient_color :: "real \<Rightarrow> color" where
  "gradient_color normalized_dist =
     (if normalized_dist \<le> 0.0 then (0.239, 0.376, 0.090, 1.0)
      else if normalized_dist \<le> 0.4
      then lerp_color (0.239, 0.376, 0.090, 1.0) (0.176, 0.314, 0.090, 1.0)
             (normalized_dist / 0.4)
      else if normalized_dist \<le> 0.7
      then lerp_color (0.176, 0.314, 0.090, 1.0) (0.761, 0.698, 0.502, 1.0)
             ((normalized_dist - 0.4) / 0.3)
      else if normalized_dist \<le> 0.85
      then lerp_color (0.761, 0.698, 0.502, 1.0) (0.631, 0.565, 0.376, 1.0)
             ((normalized_dist - 0.7) / 0.15)
      else lerp_color (0.631, 0.565, 0.376, 1.0) (0.545, 0.451, 0.333, 1.0)
             ((normalized_dist - 0.85) / 0.15))"

text \<open>
  The module \<^verbatim>\<open>random\<close> is a hidden global generator. Here it is the sequence of the
  values \<^verbatim>\<open>random.random()\<close> will return, with the number of values already drawn
  as the state: a draw reads the next value and advances.
\<close>

type_synonym random_stream = "nat \<Rightarrow> real"

definition random_random :: "random_stream \<Rightarrow> nat \<Rightarrow> real \<times> nat" where
  "random_random rng n = (rng n, Suc n)"

text \<open>The block "Add grass texture details"; \<^verbatim>\<open>grass_noise\<close> is drawn and not used.\<close>

fun grass_details :: "random_stream \<Rightarrow> nat \<Rightarrow> real \<Rightarrow> color \<times> nat \<Rightarrow> color \<times> nat" where
  "grass_details rng width dist_from_center ((r, g, b, a), n) =
     (if dist_from_center < real width * 0.4
      then (case random_random rng n of (u0, n1) \<Rightarrow>
              (let grass_noise = u0 * 0.1 - 0.05
               in (case random_random rng n1 of (u1, n2) \<Rightarrow>
                     (if u1 < 0.002
                      then (case random_random rng n2 of (u2, n3) \<Rightarrow>
                              (let grass_brightness = u2 * 0.4 + 0.2
                               in ((min 1.0 (r + grass_brightness * 0.3),
                                    min 1.0 (g + grass_brightness * 0.5),
                                    min 1.0 (b + grass_brightness * 0.2),
                                    1.0), n3)))
                      else ((r, g, b, a), n2)))))
      else ((r, g, b, a), n))"

text \<open>The block "Add sand texture details".\<close>

fun sand_details :: "random_stream \<Rightarrow> nat \<Rightarrow> real \<Rightarrow> color \<times> nat \<Rightarrow> color \<times> nat" where
  "sand_details rng width dist_from_center ((r, g, b, a), n) =
     (if dist_from_center > real width * 0.3
      then (case random_random rng n of (u1, n1) \<Rightarrow>
              (if u1 < 0.001
               then (case random_random rng n1 of (u2, n2) \<Rightarrow>
                       (let sand_brightness = u2 * 0.3 + 0.3
                        in ((min 1.0 (r + sand_brightness * 0.4),
                             min 1.0 (g + sand_brightness * 0.3),
                             min 1.0 (b + sand_brightness * 0.2),
                             1.0), n2)))
               else ((r, g, b, a), n1)))
      else ((r, g, b, a), n))"

text \<open>The block "Add noise overlay", which builds \<^verbatim>\<open>final_color\<close>.\<close>

fun noise_overlay :: "random_stream \<Rightarrow> color \<times> nat \<Rightarrow> color \<times> nat" where
  "noise_overlay rng ((r, g, b, a), n) =
     (case random_random rng n of (u, n1) \<Rightarrow>
        (let noise = (u - 0.5) * 0.08
         in ((max 0.0 (min 1.0 (r + noise)),
              max 0.0 (min 1.0 (g + noise)),
              max 0.0 (min 1.0 (b + noise)),
              1.0), n1)))"

text \<open>The body of the inner loop: the colour of pixel \<open>(x, y)\<close> and the generator state after it.\<close>

definition texture_pixel ::
  "random_stream \<Rightarrow> nat \<Rightarrow> nat \<Rightarrow> nat \<Rightarrow> real \<Rightarrow> nat \<Rightarrow> nat \<Rightarrow> nat \<Rightarrow> error + (color \<times> nat)" where
  "texture_pixel rng width center_x center_y max_radius x y n =
     (case math_sqrt (real_of_int ((int x - int center_x) ^ 2 + (int y - int center_y) ^ 2)) of
        Inl e \<Rightarrow> Inl e
      | Inr dist_from_center \<Rightarrow>
          (case py_div dist_from_center max_radius of
             Inl e \<Rightarrow> Inl e
           | Inr normalized_dist \<Rightarrow>
               Inr (noise_overlay rng
                      (sand_details rng width dist_from_center
                         (grass_details rng width dist_from_center
                            (gradient_color normalized_dist, n))))))"

text \<open>\<^verbatim>\<open>pixels.extend(final_color)\<close>: the buffer is flat, four numbers a pixel.\<close>

fun extend :: "real list \<Rightarrow> color \<Rightarrow> real list" where
  "extend pixels (r, g, b, a) = pixels @ [r, g, b, a]"

text \<open>\<^verbatim>\<open>for x in range(width)\<close>, over the columns still to do.\<close>

fun pixel_row ::
  "random_stream \<Rightarrow> nat \<Rightarrow> nat \<Rightarrow> nat \<Rightarrow> real \<Rightarrow> nat \<Rightarrow> nat list \<Rightarrow> real list \<times> nat
     \<Rightarrow> error + (real list \<times> nat)" where
  "pixel_row rng width center_x center_y max_radius y [] (pixels, n) = Inr (pixels, n)"
| "pixel_row rng width center_x center_y max_radius y (x # xs) (pixels, n) =
     (case texture_pixel rng width center_x center_y max_radius x y n of
        Inl e \<Rightarrow> Inl e
      | Inr (final_color, n1) \<Rightarrow>
          pixel_row rng width center_x center_y max_radius y xs (extend pixels final_color, n1))"

text \<open>\<^verbatim>\<open>for y in range(height)\<close>, over the rows still to do.\<close>

fun pixel_rows ::
  "random_stream \<Rightarrow> nat \<Rightarrow> nat \<Rightarrow> nat \<Rightarrow> real \<Rightarrow> nat list \<Rightarrow> real list \<times> nat
     \<Rightarrow> error + (real list \<times> nat)" where
  "pixel_rows rng width center_x center_y max_radius [] (pixels, n) = Inr (pixels, n)"
| "pixel_rows rng width center_x center_y max_radius (y # ys) (pixels, n) =
     (case pixel_row rng width center_x center_y max_radius y [0..<width] (pixels, n) of
        Inl e \<Rightarrow> Inl e
      | Inr st \<Rightarrow> pixel_rows rng width center_x center_y max_radius ys st)"

text \<open>
  \<^verbatim>\<open>create_detailed_terrain_texture\<close> with its two literals \<^verbatim>\<open>width, height = 1024, 1024\<close>
  as parameters, and the function itself at those literals. The result is the pixel
  buffer handed to \<^verbatim>\<open>image.pixels\<close> and the generator state; the image object of the host
  is not modelled.
\<close>

definition terrain_texture :: "nat \<Rightarrow> nat \<Rightarrow> random_stream \<Rightarrow> nat \<Rightarrow> error + (real list \<times> nat)" where
  "terrain_texture width height rng n =
     (let center_x = width div 2;
          center_y = height div 2;
          max_radius = real (min center_x center_y) * 0.98
      in pixel_rows rng width center_x center_y max_radius [0..<height] ([], n))"

definition create_detailed_terrain_texture :: "random_stream \<Rightarrow> nat \<Rightarrow> error + (real list \<times> nat)" where
  "create_detailed_terrain_texture rng n = terrain_texture 1024 1024 rng n"

text \<open>
  A well-formed buffer, for the proofs (it is not a function of the source): groups of
  four numbers, the first three in \<open>[0, 1]\<close> and the fourth equal to \<open>1\<close>.
\<close>

fun rgba_ok :: "real list \<Rightarrow> bool" where
  "rgba_ok [] = True"
| "rgba_ok (r # g # b # a # rest) =
     (0 \<le> r \<and> r \<le> 1 \<and> 0 \<le> g \<and> g \<le> 1 \<and> 0 \<le> b \<and> b \<le> 1 \<and> a = 1 \<and> rgba_ok rest)"
| "rgba_ok _ = False"

section \<open>Properties of the terrain height and of the noise\<close>

subsection \<open>The height function in exact arithmetic\<close>

text \<open>
  Over the reals the square root is taken of a sum of two squares, and the division is
  reached only below a positive \<^verbatim>\<open>hill_radius\<close>: neither error branch of the real
  reading can be taken, whatever the parameters are. (What overflow makes the program
  raise is the subject of the embedding over doubles, further down.)
\<close>

lemma calculate_terrain_height_total:
  "calculate_terrain_height self x z =
     Inr (shape_at_distance (terrain_params self) (sqrt (x * x + z * z))
          + get_surface_noise x z)"
proof -
  have nn: "\<not> x * x + z * z < 0"
    by (simp add: not_less)
  have d0: "0 \<le> sqrt (x * x + z * z)"
    by simp
  show ?thesis
  proof (cases "sqrt (x * x + z * z) < hill_radius (terrain_params self)")
    case True
    then have "hill_radius (terrain_params self) \<noteq> 0"
      using d0 by linarith
    with True nn show ?thesis
      by (simp add: calculate_terrain_height_def math_sqrt_def py_div_def
          shape_at_distance_def Let_def)
  next
    case False
    with nn show ?thesis
      by (simp add: calculate_terrain_height_def math_sqrt_def py_div_def
          shape_at_distance_def Let_def)
  qed
qed

lemma sqrt_3_4: "sqrt (3 * 3 + 4 * 4) = 5"
  by (rule real_sqrt_unique) simp_all

subsection \<open>Three sample heights\<close>

text \<open>
  Claim C3. With \<^verbatim>\<open>hill_height = 15\<close>, \<^verbatim>\<open>hill_radius = 100\<close>, \<^verbatim>\<open>island_radius = 220\<close>
  and \<^verbatim>\<open>base_ground_level = -5\<close> the height at \<open>(0, 0)\<close> is \<open>10\<close> plus the noise there
  (top of the dome), at \<open>(150, 0)\<close> it is \<open>-5\<close> plus the noise (flat shelf) and at
  \<open>(300, 0)\<close> it is \<open>-69\<close> plus the noise (80 units into the void, a drop of \<open>8\<^sup>2\<close>).
\<close>

theorem scenario_heights:
  assumes "hill_height (terrain_params self) = 15"
    and "hill_radius (terrain_params self) = 100"
    and "island_radius (terrain_params self) = 220"
    and "base_ground_level (terrain_params self) = - 5"
  shows "calculate_terrain_height self 0 0 = Inr (10 + get_surface_noise 0 0)
       \<and> calculate_terrain_height self 150 0 = Inr (- 5 + get_surface_noise 150 0)
       \<and> calculate_terrain_height self 300 0 = Inr (- 69 + get_surface_noise 300 0)"
  using assms
  by (simp add: calculate_terrain_height_total shape_at_distance_def)

theorem scenario_heights_witness:
  "hill_height (terrain_params new_generator) = 15
   \<and> hill_radius (terrain_params new_generator) = 100
   \<and> island_radius (terrain_params new_generator) = 220
   \<and> base_ground_level (terrain_params new_generator) = - 5
   \<and> calculate_terrain_height new_generator 0 0 = Inr (10 + get_surface_noise 0 0)
   \<and> calculate_terrain_height new_generator 150 0 = Inr (- 5 + get_surface_noise 150 0)
   \<and> calculate_terrain_height new_generator 300 0 = Inr (- 69 + get_surface_noise 300 0)"
  using scenario_heights [of new_generator]
  by (simp add: new_generator_def)

subsection \<open>The noise is bounded by the sum of the amplitudes\<close>

lemma noise_loop_bound:
  "\<bar>noise_loop os x z acc - acc\<bar> \<le> sum_list (map (\<lambda>oc. \<bar>amp oc\<bar>) os)"
proof (induction os arbitrary: acc)
  case Nil
  show ?case by simp
next
  case (Cons oc rest)
  define t where
    "t = sin ((x * cos (angle_x oc) - z * sin (angle_x oc) + phase_x oc) * freq oc)
         * cos ((x * sin (angle_z oc) + z * cos (angle_z oc) + phase_z oc) * freq oc)"
  have "\<bar>t\<bar> \<le> 1 * 1"
    unfolding t_def abs_mult by (intro mult_mono) simp_all
  then have t1: "\<bar>t * amp oc\<bar> \<le> \<bar>amp oc\<bar>"
    by (simp add: abs_mult mult_left_le_one_le)
  have step: "noise_loop (oc # rest) x z acc = noise_loop rest x z (acc + t * amp oc)"
    by (simp add: t_def Let_def)
  have "\<bar>noise_loop rest x z (acc + t * amp oc) - (acc + t * amp oc)\<bar>
          \<le> sum_list (map (\<lambda>oc. \<bar>amp oc\<bar>) rest)"
    by (rule Cons.IH)
  with t1 show ?case
    unfolding step by simp
qed

lemma sum_abs_amp_octaves: "sum_list (map (\<lambda>oc. \<bar>amp oc\<bar>) octaves) = 0.54"
  by (simp add: octaves_def)

lemma sum_amp_octaves: "sum_list (map amp octaves) = 0.54"
  by (simp add: octaves_def)

text \<open>
  Claim C4. For every \<open>(x, z)\<close> the noise of the five fixed octaves is at most \<open>0.54\<close> in
  magnitude, and \<open>0.54\<close> is the sum of their amplitudes. The bound comes from
  \<open>\<bar>sin a * cos b\<bar> \<le> 1\<close> for each octave; the code clamps nothing.
\<close>

theorem noise_bounded:
  "\<bar>get_surface_noise x z\<bar> \<le> 0.54 \<and> sum_list (map amp octaves) = 0.54"
proof -
  have "\<bar>noise_loop octaves x z 0 - 0\<bar> \<le> sum_list (map (\<lambda>oc. \<bar>amp oc\<bar>) octaves)"
    by (rule noise_loop_bound)
  then show ?thesis
    by (simp add: get_surface_noise_def sum_abs_amp_octaves sum_amp_octaves)
qed

subsection \<open>The height without noise depends on the distance only\<close>

text \<open>
  Claim C5. Two points at the same distance from the centre
  (\<open>x1\<^sup>2 + z1\<^sup>2 = x2\<^sup>2 + z2\<^sup>2\<close>) have the same height once the noise at each point is
  taken away; both heights are returned without error.
\<close>

theorem noise_free_radial:
  assumes "x1 * x1 + z1 * z1 = x2 * x2 + z2 * z2"
  shows "\<exists>h1 h2. calculate_terrain_height self x1 z1 = Inr h1
               \<and> calculate_terrain_height self x2 z2 = Inr h2
               \<and> h1 - get_surface_noise x1 z1 = h2 - get_surface_noise x2 z2"
  using assms by (simp add: calculate_terrain_height_total)

theorem noise_free_radial_witness:
  "(3::real) * 3 + 4 * 4 = 5 * 5 + 0 * 0
   \<and> (\<exists>h1 h2. calculate_terrain_height new_generator 3 4 = Inr h1
               \<and> calculate_terrain_height new_generator 5 0 = Inr h2
               \<and> h1 - get_surface_noise 3 4 = h2 - get_surface_noise 5 0)"
  using noise_free_radial [of 3 4 5 0 new_generator]
  by simp

subsection \<open>The seam at the island radius and the void beyond it\<close>

lemma void_drop_strict:
  fixes r d1 d2 :: real
  assumes "r \<le> d1" and "d1 < d2"
  shows "((d1 - r) * 0.1) ^ 2 < ((d2 - r) * 0.1) ^ 2"
proof (rule power_strict_mono)
  show "(d1 - r) * 0.1 < (d2 - r) * 0.1"
    using assms by simp
  show "0 \<le> (d1 - r) * 0.1"
    using assms by simp
  show "0 < (2::nat)"
    by simp
qed

lemma shape_unbounded_below:
  fixes b r M c x :: real
  assumes c_def: "c = \<bar>b - M\<bar> + 1" and x_def: "x = \<bar>r\<bar> + 10 * c"
  shows "0 \<le> x \<and> r \<le> x \<and> b - ((x - r) * 0.1) ^ 2 < M"
proof -
  have c1: "1 \<le> c"
    by (simp add: c_def)
  have a1: "r \<le> \<bar>r\<bar>" and a2: "0 \<le> \<bar>r\<bar>"
    by simp_all
  have x0: "0 \<le> x"
    unfolding x_def using c1 a2 by linarith
  have xr: "r \<le> x"
    unfolding x_def using c1 a1 by linarith
  have "10 * c \<le> x - r"
    unfolding x_def using a1 by linarith
  then have "c \<le> (x - r) * 0.1"
    by simp
  moreover have "0 \<le> c"
    using c1 by simp
  ultimately have "c ^ 2 \<le> ((x - r) * 0.1) ^ 2"
    by (intro power_mono)
  moreover have "c \<le> c ^ 2"
    using c1 by (simp add: power2_eq_square)
  moreover have "b - M < c"
    unfolding c_def by linarith
  ultimately have "b - ((x - r) * 0.1) ^ 2 < M"
    by linarith
  with x0 xr show ?thesis
    by simp
qed

lemma shape_strict_decreasing:
  assumes "island_radius p \<le> d1" and "d1 < d2"
  shows "shape_at_distance p d2 < shape_at_distance p d1"
proof -
  have "island_radius p \<le> d2"
    using assms by linarith
  with assms void_drop_strict [of "island_radius p" d1 d2] show ?thesis
    unfolding shape_at_distance_def by simp
qed

text \<open>
  Claim C6. For parameters with \<^verbatim>\<open>hill_radius < island_radius\<close>: at a distance equal to
  \<^verbatim>\<open>island_radius\<close> the height without noise is \<^verbatim>\<open>base_ground_level\<close>, the value it
  has on the flat shelf just inside (no jump at the seam); from \<^verbatim>\<open>island_radius\<close>
  outwards it is strictly decreasing in the distance; and it is unbounded below (it
  falls under any given \<open>M\<close>).
\<close>

theorem void_seam_and_falloff:
  assumes "hill_radius (terrain_params self) < island_radius (terrain_params self)"
  shows "(sqrt (x * x + z * z) = island_radius (terrain_params self) \<longrightarrow>
            calculate_terrain_height self x z
              = Inr (base_ground_level (terrain_params self) + get_surface_noise x z))
       \<and> (hill_radius (terrain_params self) \<le> sqrt (x * x + z * z)
            \<and> sqrt (x * x + z * z) < island_radius (terrain_params self) \<longrightarrow>
            calculate_terrain_height self x z
              = Inr (base_ground_level (terrain_params self) + get_surface_noise x z))
       \<and> (island_radius (terrain_params self) \<le> sqrt (x1 * x1 + z1 * z1)
            \<and> sqrt (x1 * x1 + z1 * z1) < sqrt (x2 * x2 + z2 * z2) \<longrightarrow>
            (\<exists>h1 h2. calculate_terrain_height self x1 z1 = Inr h1
                   \<and> calculate_terrain_height self x2 z2 = Inr h2
                   \<and> h2 - get_surface_noise x2 z2 < h1 - get_surface_noise x1 z1))
       \<and> (\<exists>x0 h. island_radius (terrain_params self) \<le> sqrt (x0 * x0 + 0 * 0)
                 \<and> calculate_terrain_height self x0 0 = Inr h
                 \<and> h - get_surface_noise x0 0 < M)"
proof (intro conjI impI)
  assume "sqrt (x * x + z * z) = island_radius (terrain_params self)"
  then show "calculate_terrain_height self x z
              = Inr (base_ground_level (terrain_params self) + get_surface_noise x z)"
    by (simp add: calculate_terrain_height_total shape_at_distance_def)
next
  assume "hill_radius (terrain_params self) \<le> sqrt (x * x + z * z)
            \<and> sqrt (x * x + z * z) < island_radius (terrain_params self)"
  then show "calculate_terrain_height self x z
              = Inr (base_ground_level (terrain_params self) + get_surface_noise x z)"
    by (simp add: calculate_terrain_height_total shape_at_distance_def)
next
  assume a: "island_radius (terrain_params self) \<le> sqrt (x1 * x1 + z1 * z1)
            \<and> sqrt (x1 * x1 + z1 * z1) < sqrt (x2 * x2 + z2 * z2)"
  then have "shape_at_distance (terrain_params self) (sqrt (x2 * x2 + z2 * z2))
           < shape_at_distance (terrain_params self) (sqrt (x1 * x1 + z1 * z1))"
    by (intro shape_strict_decreasing) blast+
  then show "\<exists>h1 h2. calculate_terrain_height self x1 z1 = Inr h1
                   \<and> calculate_terrain_height self x2 z2 = Inr h2
                   \<and> h2 - get_surface_noise x2 z2 < h1 - get_surface_noise x1 z1"
    unfolding calculate_terrain_height_total by simp
next
  define r where "r = island_radius (terrain_params self)"
  define b where "b = base_ground_level (terrain_params self)"
  define c where "c = \<bar>b - M\<bar> + 1"
  define x0 where "x0 = \<bar>r\<bar> + 10 * c"
  have u: "0 \<le> x0 \<and> r \<le> x0 \<and> b - ((x0 - r) * 0.1) ^ 2 < M"
    using c_def x0_def by (rule shape_unbounded_below)
  then have s: "sqrt (x0 * x0 + 0 * 0) = x0"
    by simp
  have "calculate_terrain_height self x0 0 = Inr (b - ((x0 - r) * 0.1) ^ 2 + get_surface_noise x0 0)"
    using u unfolding calculate_terrain_height_total s
    by (simp add: shape_at_distance_def r_def b_def)
  with u s show "\<exists>x0 h. island_radius (terrain_params self) \<le> sqrt (x0 * x0 + 0 * 0)
                 \<and> calculate_terrain_height self x0 0 = Inr h
                 \<and> h - get_surface_noise x0 0 < M"
    unfolding r_def by (intro exI [of _ x0] exI [of _ "b - ((x0 - r) * 0.1) ^ 2 + get_surface_noise x0 0"]) (simp add: r_def)
qed

theorem void_seam_and_falloff_witness:
  "hill_radius (terrain_params new_generator) < island_radius (terrain_params new_generator)
   \<and> sqrt (220 * 220 + 0 * 0) = island_radius (terrain_params new_generator)
   \<and> calculate_terrain_height new_generator 220 0 = Inr (- 5 + get_surface_noise 220 0)
   \<and> hill_radius (terrain_params new_generator) \<le> sqrt (150 * 150 + 0 * 0)
   \<and> sqrt (150 * 150 + 0 * 0) < island_radius (terrain_params new_generator)
   \<and> calculate_terrain_height new_generator 150 0 = Inr (- 5 + get_surface_noise 150 0)
   \<and> island_radius (terrain_params new_generator) \<le> sqrt (220 * 220 + 0 * 0)
   \<and> sqrt (220 * 220 + 0 * 0) < sqrt (300 * 300 + 0 * 0)
   \<and> (\<exists>h1 h2. calculate_terrain_height new_generator 220 0 = Inr h1
             \<and> calculate_terrain_height new_generator 300 0 = Inr h2
             \<and> h2 - get_surface_noise 300 0 < h1 - get_surface_noise 220 0)
   \<and> (\<exists>x0 h. island_radius (terrain_params new_generator) \<le> sqrt (x0 * x0 + 0 * 0)
             \<and> calculate_terrain_height new_generator x0 0 = Inr h
             \<and> h - get_surface_noise x0 0 < - 1000)"
  using void_seam_and_falloff [of new_generator 220 0 220 0 300 0 "- 1000"]
    void_seam_and_falloff [of new_generator 150 0 220 0 300 0 "- 1000"]
  by (simp add: new_generator_def)

section \<open>The height function over doubles\<close>

subsection \<open>Where nothing overflows the two readings agree\<close>

lemma max_float_big: "3 * ((10::real) ^ 100 * 10 ^ 100) \<le> max_float"
  by (simp add: max_float_def)

lemma max_float_pos: "1 < max_float"
  by (simp add: max_float_def)

lemma overflow_exact: "\<bar>r\<bar> \<le> max_float \<Longrightarrow> overflow r = Finite r"
  by (auto simp: overflow_def)

lemma fadd_exact: "\<bar>a + b\<bar> \<le> max_float \<Longrightarrow> fadd (Finite a) (Finite b) = Finite (a + b)"
  by (simp add: overflow_exact)

lemma fsub_exact: "\<bar>a - b\<bar> \<le> max_float \<Longrightarrow> fsub (Finite a) (Finite b) = Finite (a - b)"
  by (simp add: fsub_def overflow_exact)

lemma fmul_exact: "\<bar>a * b\<bar> \<le> max_float \<Longrightarrow> fmul (Finite a) (Finite b) = Finite (a * b)"
  by (simp add: overflow_exact)

lemma abs_mult_unit: "\<bar>x\<bar> \<le> B \<Longrightarrow> \<bar>c\<bar> \<le> 1 \<Longrightarrow> \<bar>x * c\<bar> \<le> (B::real)"
proof -
  assume a: "\<bar>x\<bar> \<le> B" and c: "\<bar>c\<bar> \<le> 1"
  have "\<bar>x * c\<bar> = \<bar>x\<bar> * \<bar>c\<bar>"
    by (rule abs_mult)
  also have "\<dots> \<le> \<bar>x\<bar> * 1"
    using c by (intro mult_left_mono) simp_all
  finally show ?thesis
    using a by simp
qed

lemma abs_mult_le: "\<bar>x\<bar> \<le> B \<Longrightarrow> \<bar>c\<bar> \<le> C \<Longrightarrow> \<bar>x * c\<bar> \<le> B * (C::real)"
proof -
  assume a: "\<bar>x\<bar> \<le> B" and c: "\<bar>c\<bar> \<le> C"
  have "\<bar>x * c\<bar> = \<bar>x\<bar> * \<bar>c\<bar>"
    by (rule abs_mult)
  also have "\<dots> \<le> B * C"
    using a c by (intro mult_mono) simp_all
  finally show ?thesis .
qed

lemma octave_angle_exact:
  assumes x: "\<bar>x\<bar> \<le> B" and z: "\<bar>z\<bar> \<le> B" and B10: "10 \<le> B" and BM: "6 * B \<le> max_float"
    and c: "\<bar>c\<bar> \<le> 1" and s: "\<bar>s\<bar> \<le> 1" and p: "\<bar>ph\<bar> \<le> 10" and f: "\<bar>fr\<bar> \<le> 2"
  shows "fmul (fadd (fsub (fmul (Finite x) (Finite c)) (fmul (Finite z) (Finite s))) (Finite ph))
              (Finite fr)
         = Finite ((x * c - z * s + ph) * fr)"
    and "fmul (fadd (fadd (fmul (Finite x) (Finite s)) (fmul (Finite z) (Finite c))) (Finite ph))
              (Finite fr)
         = Finite ((x * s + z * c + ph) * fr)"
proof -
  have xc: "\<bar>x * c\<bar> \<le> B" and zs: "\<bar>z * s\<bar> \<le> B" and xs: "\<bar>x * s\<bar> \<le> B" and zc: "\<bar>z * c\<bar> \<le> B"
    using x z c s by (simp_all add: abs_mult_unit)
  have BM1: "B \<le> max_float" and BM2: "2 * B \<le> max_float" and BM3: "3 * B \<le> max_float"
    using B10 BM by linarith+
  have m1: "fmul (Finite x) (Finite c) = Finite (x * c)"
    using xc BM1 by (intro fmul_exact) linarith
  have m2: "fmul (Finite z) (Finite s) = Finite (z * s)"
    using zs BM1 by (intro fmul_exact) linarith
  have m3: "fmul (Finite x) (Finite s) = Finite (x * s)"
    using xs BM1 by (intro fmul_exact) linarith
  have m4: "fmul (Finite z) (Finite c) = Finite (z * c)"
    using zc BM1 by (intro fmul_exact) linarith
  have d1: "\<bar>x * c - z * s\<bar> \<le> 2 * B"
    using xc zs by linarith
  have d2: "\<bar>x * s + z * c\<bar> \<le> 2 * B"
    using xs zc by linarith
  have s1: "fsub (Finite (x * c)) (Finite (z * s)) = Finite (x * c - z * s)"
    using d1 BM2 by (intro fsub_exact) linarith
  have s2: "fadd (Finite (x * s)) (Finite (z * c)) = Finite (x * s + z * c)"
    using d2 BM2 by (intro fadd_exact) linarith
  have e1: "\<bar>x * c - z * s + ph\<bar> \<le> 3 * B"
    using d1 p B10 by linarith
  have e2: "\<bar>x * s + z * c + ph\<bar> \<le> 3 * B"
    using d2 p B10 by linarith
  have a1: "fadd (Finite (x * c - z * s)) (Finite ph) = Finite (x * c - z * s + ph)"
    using e1 BM3 by (intro fadd_exact) linarith
  have a2: "fadd (Finite (x * s + z * c)) (Finite ph) = Finite (x * s + z * c + ph)"
    using e2 BM3 by (intro fadd_exact) linarith
  have g1: "\<bar>(x * c - z * s + ph) * fr\<bar> \<le> 3 * B * 2"
    using e1 f by (rule abs_mult_le)
  have g2: "\<bar>(x * s + z * c + ph) * fr\<bar> \<le> 3 * B * 2"
    using e2 f by (rule abs_mult_le)
  show "fmul (fadd (fsub (fmul (Finite x) (Finite c)) (fmul (Finite z) (Finite s))) (Finite ph))
              (Finite fr)
         = Finite ((x * c - z * s + ph) * fr)"
    unfolding m1 m2 s1 a1 using g1 BM by (intro fmul_exact) linarith
  show "fmul (fadd (fadd (fmul (Finite x) (Finite s)) (fmul (Finite z) (Finite c))) (Finite ph))
              (Finite fr)
         = Finite ((x * s + z * c + ph) * fr)"
    unfolding m3 m4 s2 a2 using g2 BM by (intro fmul_exact) linarith
qed

lemma noise_loop_float_exact:
  assumes x: "\<bar>x\<bar> \<le> B" and z: "\<bar>z\<bar> \<le> B" and B10: "10 \<le> B" and BM: "6 * B \<le> max_float"
  shows "\<forall>oc \<in> set os. \<bar>phase_x oc\<bar> \<le> 10 \<and> \<bar>phase_z oc\<bar> \<le> 10 \<and> \<bar>freq oc\<bar> \<le> 2 \<Longrightarrow>
         \<bar>acc\<bar> + sum_list (map (\<lambda>oc. \<bar>amp oc\<bar>) os) \<le> max_float \<Longrightarrow>
         noise_loop_float os (Finite x) (Finite z) (Finite acc)
           = Inr (Finite (noise_loop os x z acc))"
proof (induction os arbitrary: acc)
  case Nil
  show ?case by simp
next
  case (Cons oc rest)
  have ok: "\<bar>phase_x oc\<bar> \<le> 10" "\<bar>phase_z oc\<bar> \<le> 10" "\<bar>freq oc\<bar> \<le> 2"
    using Cons.prems(1) by simp_all
  have rest_ok: "\<forall>oc \<in> set rest. \<bar>phase_x oc\<bar> \<le> 10 \<and> \<bar>phase_z oc\<bar> \<le> 10 \<and> \<bar>freq oc\<bar> \<le> 2"
    using Cons.prems(1) by simp
  define sv where
    "sv = sin ((x * cos (angle_x oc) - z * sin (angle_x oc) + phase_x oc) * freq oc)"
  define cv where
    "cv = cos ((x * sin (angle_z oc) + z * cos (angle_z oc) + phase_z oc) * freq oc)"
  have arg1: "fmul (fadd (fsub (fmul (Finite x) (Finite (cos (angle_x oc))))
                               (fmul (Finite z) (Finite (sin (angle_x oc)))))
                         (Finite (phase_x oc))) (Finite (freq oc))
              = Finite ((x * cos (angle_x oc) - z * sin (angle_x oc) + phase_x oc) * freq oc)"
    using x z B10 BM _ _ ok(1) ok(3) by (rule octave_angle_exact(1)) simp_all
  have arg2: "fmul (fadd (fadd (fmul (Finite x) (Finite (sin (angle_z oc))))
                               (fmul (Finite z) (Finite (cos (angle_z oc)))))
                         (Finite (phase_z oc))) (Finite (freq oc))
              = Finite ((x * sin (angle_z oc) + z * cos (angle_z oc) + phase_z oc) * freq oc)"
    using x z B10 BM _ _ ok(2) ok(3) by (rule octave_angle_exact(2)) simp_all
  have sum_nn: "0 \<le> sum_list (map (\<lambda>oc. \<bar>amp oc\<bar>) rest)"
    by (rule sum_list_nonneg) auto
  have room: "\<bar>acc\<bar> + \<bar>amp oc\<bar> + sum_list (map (\<lambda>oc. \<bar>amp oc\<bar>) rest) \<le> max_float"
    using Cons.prems(2) by simp
  have sc1: "\<bar>sv * cv\<bar> \<le> 1"
    using abs_mult_unit [of sv 1 cv] by (simp add: sv_def cv_def)
  have sca: "\<bar>sv * cv * amp oc\<bar> \<le> \<bar>amp oc\<bar>"
  proof -
    have "\<bar>sv * cv * amp oc\<bar> = \<bar>amp oc\<bar> * \<bar>sv * cv\<bar>"
      by (simp add: abs_mult)
    also have "\<dots> \<le> \<bar>amp oc\<bar> * 1"
      using sc1 by (intro mult_left_mono) simp_all
    finally show ?thesis by simp
  qed
  have abs_acc: "0 \<le> \<bar>acc\<bar>"
    by simp
  have p1: "fmul (Finite sv) (Finite cv) = Finite (sv * cv)"
    using sc1 max_float_pos by (intro fmul_exact) linarith
  have p2: "fmul (Finite (sv * cv)) (Finite (amp oc)) = Finite (sv * cv * amp oc)"
    using sca room sum_nn abs_acc by (intro fmul_exact) linarith
  have tri: "\<bar>acc + sv * cv * amp oc\<bar> \<le> \<bar>acc\<bar> + \<bar>amp oc\<bar>"
    using sca by linarith
  have p3: "fadd (Finite acc) (Finite (sv * cv * amp oc)) = Finite (acc + sv * cv * amp oc)"
    using tri room sum_nn by (intro fadd_exact) linarith
  have next_room: "\<bar>acc + sv * cv * amp oc\<bar> + sum_list (map (\<lambda>oc. \<bar>amp oc\<bar>) rest) \<le> max_float"
    using tri room by linarith
  have step_float: "noise_loop_float (oc # rest) (Finite x) (Finite z) (Finite acc)
        = noise_loop_float rest (Finite x) (Finite z) (Finite (acc + sv * cv * amp oc))"
    by (simp add: Let_def arg1 arg2 p1 p2 p3 flip: sv_def cv_def del: fmul.simps fadd.simps)
  have step_real: "noise_loop (oc # rest) x z acc = noise_loop rest x z (acc + sv * cv * amp oc)"
    by (simp add: Let_def sv_def cv_def)
  show ?case
    unfolding step_float step_real using rest_ok next_room by (rule Cons.IH)
qed

lemma octaves_in_range:
  "\<forall>oc \<in> set octaves. \<bar>phase_x oc\<bar> \<le> 10 \<and> \<bar>phase_z oc\<bar> \<le> 10 \<and> \<bar>freq oc\<bar> \<le> 2"
  by (simp add: octaves_def)

lemma get_surface_noise_float_exact:
  assumes "\<bar>x\<bar> \<le> 10 ^ 100" and "\<bar>z\<bar> \<le> 10 ^ 100"
  shows "get_surface_noise_float (Finite x) (Finite z) = Inr (Finite (get_surface_noise x z))"
proof -
  have "6 * (10::real) ^ 100 \<le> max_float"
    using max_float_big by simp
  moreover have "(10::real) \<le> 10 ^ 100"
    by simp
  moreover have "\<bar>0::real\<bar> + sum_list (map (\<lambda>oc. \<bar>amp oc\<bar>) octaves) \<le> max_float"
    using max_float_pos by (simp add: sum_abs_amp_octaves)
  ultimately show ?thesis
    unfolding get_surface_noise_float_def get_surface_noise_def
    using assms octaves_in_range by (intro noise_loop_float_exact) 
qed

subsection \<open>No division by zero\<close>

lemma math_sqrt_float_not_below_zero:
  "math_sqrt_float v = Inr d \<Longrightarrow> \<not> flt d (Finite 0)"
  by (cases v) (auto split: if_splits)

lemma math_sqrt_float_error: "math_sqrt_float v \<noteq> Inl ZeroDivisionError"
  by (cases v) simp_all

lemma py_pow2_error: "py_pow2 v \<noteq> Inl ZeroDivisionError"
  by (cases v) simp_all

lemma math_sin_error: "math_sin v \<noteq> Inl ZeroDivisionError"
  by (cases v) simp_all

lemma math_cos_error: "math_cos v \<noteq> Inl ZeroDivisionError"
  by (cases v) simp_all

lemma noise_loop_float_error:
  "noise_loop_float os x z acc \<noteq> Inl ZeroDivisionError"
proof (induction os arbitrary: acc)
  case Nil
  show ?case by simp
next
  case (Cons oc rest)
  show ?case
    using Cons.IH math_sin_error math_cos_error
    by (auto simp add: Let_def split: sum.splits simp del: fmul.simps fadd.simps)
qed

lemma no_division_error:
  assumes "hill_radius (terrain_params self) = 0"
  shows "calculate_terrain_height_float self x z \<noteq> Inl ZeroDivisionError"
proof (cases "math_sqrt_float (fadd (fmul x x) (fmul z z))")
  case (Inl e)
  then have "calculate_terrain_height_float self x z = Inl e"
    by (simp add: calculate_terrain_height_float_def)
  moreover have "e \<noteq> ZeroDivisionError"
    using Inl math_sqrt_float_error [of "fadd (fmul x x) (fmul z z)"] by auto
  ultimately show ?thesis by simp
next
  case (Inr d)
  then have guard: "\<not> flt d (Finite 0)"
    by (rule math_sqrt_float_not_below_zero)
  show ?thesis
    using Inr guard assms py_pow2_error noise_loop_float_error
    by (auto simp add: calculate_terrain_height_float_def get_surface_noise_float_def Let_def
        split: sum.splits)
qed

subsection \<open>An overflow that raises\<close>

lemma cos_plus_sin_gt_one:
  assumes "0 < a" and "a < pi / 2"
  shows "1 < cos a + sin a"
proof -
  have s: "0 < sin a"
    using assms pi_gt_zero by (intro sin_gt_zero) linarith+
  have c: "0 < cos a"
    using assms by (intro cos_gt_zero) 
  have "(cos a + sin a) ^ 2 = (sin a)\<^sup>2 + (cos a)\<^sup>2 + 2 * (sin a * cos a)"
    by (simp add: power2_eq_square algebra_simps)
  also have "\<dots> = 1 + 2 * (sin a * cos a)"
    by simp
  finally have sq: "1 < (cos a + sin a) ^ 2"
    using s c by simp
  show ?thesis
  proof (rule ccontr)
    assume "\<not> 1 < cos a + sin a"
    then have "cos a + sin a \<le> 1"
      by simp
    moreover have "0 \<le> cos a + sin a"
      using s c by simp
    ultimately have "(cos a + sin a) ^ 2 \<le> 1"
      by (simp add: power_le_one)
    with sq show False
      by simp
  qed
qed

lemma first_octave_overflows:
  assumes a0: "0 < a" and a1: "a < pi / 2"
  shows "fsub (fmul (Finite max_float) (Finite (cos a)))
              (fmul (Finite (- max_float)) (Finite (sin a))) = PosInf"
proof -
  have M: "0 < max_float"
    using max_float_pos by simp
  have c1: "\<bar>max_float * cos a\<bar> \<le> max_float"
    using abs_mult_unit [of max_float max_float "cos a"] M by simp
  have s1: "\<bar>- max_float * sin a\<bar> \<le> max_float"
    using abs_mult_unit [of "- max_float" max_float "sin a"] M by simp
  have m1: "fmul (Finite max_float) (Finite (cos a)) = Finite (max_float * cos a)"
    using c1 by (rule fmul_exact)
  have m2: "fmul (Finite (- max_float)) (Finite (sin a)) = Finite (- max_float * sin a)"
    using s1 by (rule fmul_exact)
  have "max_float * 1 < max_float * (cos a + sin a)"
    using M cos_plus_sin_gt_one [OF a0 a1] by (intro mult_strict_left_mono)
  then have big: "max_float < max_float * cos a - (- max_float * sin a)"
    by (simp add: algebra_simps)
  have "fsub (Finite (max_float * cos a)) (Finite (- max_float * sin a)) = PosInf"
    using big by (simp add: fsub_def overflow_def del: mult_minus_left)
  then show ?thesis
    unfolding m1 m2 .
qed

lemma noise_step_raises:
  assumes "fsub (fmul x (Finite (cos (angle_x oc)))) (fmul z (Finite (sin (angle_x oc)))) = PosInf"
    and "0 < freq oc"
  shows "noise_loop_float (oc # rest) x z acc = Inl ValueError"
  using assms by (simp add: Let_def inf_times_def)

lemma noise_raises_on_overflow:
  "get_surface_noise_float (Finite max_float) (Finite (- max_float)) = Inl ValueError"
  unfolding get_surface_noise_float_def octaves_def
  by (rule noise_step_raises) (simp_all add: first_octave_overflows del: fmul.simps)

lemma square_overflows: "overflow (max_float * max_float) = PosInf"
proof -
  have "max_float * 1 < max_float * max_float"
    using max_float_pos by (intro mult_strict_left_mono) simp_all
  then show ?thesis
    by (simp add: overflow_def)
qed

text \<open>
  Claim C10 says that with \<^verbatim>\<open>hill_radius = 0\<close> the height function returns for every
  finite \<open>(x, z)\<close> and raises no error at all. It does raise: at
  \<open>(max_float, -max_float)\<close>, two finite doubles, the rotated coordinate \<^verbatim>\<open>x1\<close> of the
  first octave is \<open>max_float * (cos (pi / 7.3) + sin (pi / 7.3))\<close>, beyond the largest
  double, so it is an infinity and \<^verbatim>\<open>math.sin\<close> raises \<^verbatim>\<open>ValueError\<close> inside
  \<^verbatim>\<open>get_surface_noise\<close>.
\<close>

theorem height_raises_on_overflow:
  "calculate_terrain_height_float
     (new_generator\<lparr>terrain_params := (terrain_params new_generator)\<lparr>hill_radius := 0\<rparr>\<rparr>)
     (Finite max_float) (Finite (- max_float)) = Inl ValueError"
  by (simp add: calculate_terrain_height_float_def square_overflows noise_raises_on_overflow
      new_generator_def fge_def fsub_def inf_times_def Let_def)

subsection \<open>A zero hill radius\<close>

lemma sqrt_sum_le:
  "sqrt (x * x + z * z) \<le> \<bar>x\<bar> + \<bar>z\<bar>"
  using sqrt_sum_squares_le_sum_abs [of x z] by (simp add: power2_eq_square)

lemma height_float_exact_hill_radius_zero:
  assumes hr: "hill_radius (terrain_params self) = 0"
    and x: "\<bar>x\<bar> \<le> 10 ^ 100" and z: "\<bar>z\<bar> \<le> 10 ^ 100"
    and r: "\<bar>island_radius (terrain_params self)\<bar> \<le> 10 ^ 100"
    and b: "\<bar>base_ground_level (terrain_params self)\<bar> \<le> 10 ^ 100"
  shows "calculate_terrain_height_float self (Finite x) (Finite z) =
           Inr (Finite (base_ground_level (terrain_params self)
                - (if sqrt (x * x + z * z) \<ge> island_radius (terrain_params self)
                   then ((sqrt (x * x + z * z) - island_radius (terrain_params self)) * 0.1) ^ 2
                   else 0)
                + get_surface_noise x z))"
proof -
  define B :: real where "B = 10 ^ 100"
  define R where "R = island_radius (terrain_params self)"
  define b0 where "b0 = base_ground_level (terrain_params self)"
  define d where "d = sqrt (x * x + z * z)"
  define n where "n = get_surface_noise x z"
  have B10: "10 \<le> B"
    by (simp add: B_def)
  have BM: "3 * (B * B) \<le> max_float"
    unfolding B_def by (rule max_float_big)
  have BB: "10 * B \<le> B * B"
    using B10 by (intro mult_right_mono) simp_all
  have xB: "\<bar>x\<bar> \<le> B" and zB: "\<bar>z\<bar> \<le> B" and RB: "\<bar>R\<bar> \<le> B" and bB: "\<bar>b0\<bar> \<le> B"
    using x z r b by (simp_all add: B_def R_def b0_def)
  have xx: "\<bar>x * x\<bar> \<le> B * B"
    using xB xB by (rule abs_mult_le)
  have zz: "\<bar>z * z\<bar> \<le> B * B"
    using zB zB by (rule abs_mult_le)
  have m1: "fmul (Finite x) (Finite x) = Finite (x * x)"
    using xx BM BB B10 by (intro fmul_exact) linarith
  have m2: "fmul (Finite z) (Finite z) = Finite (z * z)"
    using zz BM BB B10 by (intro fmul_exact) linarith
  have a1: "fadd (Finite (x * x)) (Finite (z * z)) = Finite (x * x + z * z)"
    using xx zz BM BB B10 by (intro fadd_exact) linarith
  have nn: "\<not> x * x + z * z < 0"
    by (simp add: not_less)
  have sq: "math_sqrt_float (fadd (fmul (Finite x) (Finite x)) (fmul (Finite z) (Finite z)))
            = Inr (Finite d)"
    unfolding m1 m2 a1 using nn by (simp add: d_def)
  have d0: "0 \<le> d"
    by (simp add: d_def)
  have d2: "d \<le> 2 * B"
    using sqrt_sum_le [of x z] xB zB unfolding d_def by linarith
  have guard: "\<not> flt (Finite d) (Finite (hill_radius (terrain_params self)))"
    using d0 hr by simp
  have ge: "fge (Finite d) (Finite R) = (R \<le> d)"
    by (auto simp: fge_def)
  have nb: "\<bar>n\<bar> \<le> 1"
  proof -
    have "\<bar>noise_loop octaves x z 0 - 0\<bar> \<le> sum_list (map (\<lambda>oc. \<bar>amp oc\<bar>) octaves)"
      by (rule noise_loop_bound)
    then show ?thesis
      by (simp add: n_def get_surface_noise_def sum_abs_amp_octaves)
  qed
  have noise: "get_surface_noise_float (Finite x) (Finite z) = Inr (Finite n)"
    unfolding n_def using x z by (rule get_surface_noise_float_exact)
  have shelf: "fadd (Finite b0) (Finite n) = Finite (b0 + n)"
    using bB nb BM BB B10 by (intro fadd_exact) linarith
  show ?thesis
  proof (cases "R \<le> d")
    case False
    with sq guard ge noise shelf show ?thesis
      by (simp add: calculate_terrain_height_float_def Let_def
          flip: R_def b0_def d_def n_def del: fmul.simps fadd.simps flt.simps)
  next
    case True
    define v where "v = (d - R) * 0.1"
    have dR: "\<bar>d - R\<bar> \<le> 3 * B"
      using d0 d2 RB by linarith
    have s1: "fsub (Finite d) (Finite R) = Finite (d - R)"
      using dR BM BB B10 by (intro fsub_exact) linarith
    have "\<bar>(d - R) * 0.1\<bar> \<le> 3 * B * 0.1"
      using dR by (intro abs_mult_le) simp_all
    then have vB: "\<bar>v\<bar> \<le> B"
      using B10 by (simp add: v_def)
    have "\<bar>v\<bar> \<le> max_float"
      using vB BM BB B10 by linarith
    then have s2: "fmul (Finite (d - R)) (Finite 0.1) = Finite v"
      unfolding v_def by (rule fmul_exact)
    have v2: "v ^ 2 \<le> B * B"
    proof -
      have "v ^ 2 = \<bar>v * v\<bar>"
        by (simp add: power2_eq_square)
      also have "\<dots> \<le> B * B"
        using vB vB by (rule abs_mult_le)
      finally show ?thesis .
    qed
    have v0: "0 \<le> v ^ 2"
      by simp
    have "\<not> v ^ 2 > max_float"
      using v2 BM BB B10 by linarith
    then have s3: "py_pow2 (Finite v) = Inr (Finite (v ^ 2))"
      by simp
    have s4: "fsub (Finite b0) (Finite (v ^ 2)) = Finite (b0 - v ^ 2)"
      using v2 v0 bB BM BB B10 by (intro fsub_exact) linarith
    have s5: "fadd (Finite (b0 - v ^ 2)) (Finite n) = Finite (b0 - v ^ 2 + n)"
      using v2 v0 bB nb BM BB B10 by (intro fadd_exact) linarith
    from True sq guard ge noise s1 s2 s3 s4 s5
    have "calculate_terrain_height_float self (Finite x) (Finite z)
          = Inr (Finite (b0 - v ^ 2 + n))"
      by (simp add: calculate_terrain_height_float_def Let_def
          flip: R_def b0_def d_def del: fmul.simps fadd.simps flt.simps py_pow2.simps)
    with True show ?thesis
      by (simp add: v_def R_def b0_def d_def n_def)
  qed
qed

text \<open>
  Claim C10 as amended. With \<^verbatim>\<open>hill_radius = 0\<close> the height function never raises
  \<^verbatim>\<open>ZeroDivisionError\<close>, whatever floats \<open>x\<close> and \<open>z\<close> are: no distance \<^verbatim>\<open>math.sqrt\<close>
  returns is below \<open>0\<close>, so the division by \<^verbatim>\<open>hill_radius\<close> is not reached. And where
  nothing overflows (\<open>x\<close>, \<open>z\<close>, \<^verbatim>\<open>island_radius\<close> and \<^verbatim>\<open>base_ground_level\<close> at most
  \<open>10 ^ 100\<close> in magnitude) it returns \<^verbatim>\<open>base_ground_level\<close>, less the void drop beyond
  \<^verbatim>\<open>island_radius\<close>, plus the noise.
\<close>

theorem hill_radius_zero_no_division_error:
  assumes "hill_radius (terrain_params self) = 0"
  shows "calculate_terrain_height_float self x z \<noteq> Inl ZeroDivisionError
       \<and> (\<bar>u\<bar> \<le> 10 ^ 100 \<and> \<bar>w\<bar> \<le> 10 ^ 100
            \<and> \<bar>island_radius (terrain_params self)\<bar> \<le> 10 ^ 100
            \<and> \<bar>base_ground_level (terrain_params self)\<bar> \<le> 10 ^ 100 \<longrightarrow>
          calculate_terrain_height_float self (Finite u) (Finite w) =
            Inr (Finite (base_ground_level (terrain_params self)
                 - (if sqrt (u * u + w * w) \<ge> island_radius (terrain_params self)
                    then ((sqrt (u * u + w * w) - island_radius (terrain_params self)) * 0.1) ^ 2
                    else 0)
                 + get_surface_noise u w)))"
  using assms no_division_error [of self x z]
    height_float_exact_hill_radius_zero [of self u w]
  by blast

theorem hill_radius_zero_no_division_error_witness:
  "hill_radius (terrain_params (new_generator\<lparr>terrain_params :=
       (terrain_params new_generator)\<lparr>hill_radius := 0\<rparr>\<rparr>)) = 0
   \<and> calculate_terrain_height_float (new_generator\<lparr>terrain_params :=
       (terrain_params new_generator)\<lparr>hill_radius := 0\<rparr>\<rparr>)
       (Finite max_float) (Finite (- max_float)) \<noteq> Inl ZeroDivisionError
   \<and> \<bar>3 :: real\<bar> \<le> 10 ^ 100 \<and> \<bar>4 :: real\<bar> \<le> 10 ^ 100
   \<and> \<bar>island_radius (terrain_params (new_generator\<lparr>terrain_params :=
       (terrain_params new_generator)\<lparr>hill_radius := 0\<rparr>\<rparr>))\<bar> \<le> 10 ^ 100
   \<and> \<bar>base_ground_level (terrain_params (new_generator\<lparr>terrain_params :=
       (terrain_params new_generator)\<lparr>hill_radius := 0\<rparr>\<rparr>))\<bar> \<le> 10 ^ 100
   \<and> calculate_terrain_height_float (new_generator\<lparr>terrain_params :=
       (terrain_params new_generator)\<lparr>hill_radius := 0\<rparr>\<rparr>) (Finite 3) (Finite 4)
     = Inr (Finite (- 5 + get_surface_noise 3 4))"
proof -
  define g where "g = new_generator\<lparr>terrain_params :=
       (terrain_params new_generator)\<lparr>hill_radius := 0\<rparr>\<rparr>"
  have h: "hill_radius (terrain_params g) = 0"
    by (simp add: g_def)
  have r: "\<bar>island_radius (terrain_params g)\<bar> \<le> 10 ^ 100"
    by (simp add: g_def new_generator_def)
  have b: "\<bar>base_ground_level (terrain_params g)\<bar> \<le> 10 ^ 100"
    by (simp add: g_def new_generator_def)
  have x: "\<bar>3 :: real\<bar> \<le> 10 ^ 100" and z: "\<bar>4 :: real\<bar> \<le> 10 ^ 100"
    by simp_all
  note inst = hill_radius_zero_no_division_error
                [OF h, of "Finite max_float" "Finite (- max_float)" 3 4]
  have c1: "calculate_terrain_height_float g (Finite max_float) (Finite (- max_float))
            \<noteq> Inl ZeroDivisionError"
    using inst by (rule conjunct1)
  have "calculate_terrain_height_float g (Finite 3) (Finite 4) =
            Inr (Finite (base_ground_level (terrain_params g)
                 - (if sqrt (3 * 3 + 4 * 4) \<ge> island_radius (terrain_params g)
                    then ((sqrt (3 * 3 + 4 * 4) - island_radius (terrain_params g)) * 0.1) ^ 2
                    else 0)
                 + get_surface_noise 3 4))"
    using inst [THEN conjunct2] x z r b by blast
  then have c2: "calculate_terrain_height_float g (Finite 3) (Finite 4)
                 = Inr (Finite (- 5 + get_surface_noise 3 4))"
    unfolding sqrt_3_4 by (simp add: g_def new_generator_def)
  from h c1 x z r b c2 show ?thesis
    unfolding g_def by blast
qed

section \<open>Construction\<close>




section \<open>Properties of the terrain texture\<close>

subsection \<open>The base colour past the last breakpoint\<close>

lemma sqrt_409600: "sqrt 409600 = 640"
  by (rule real_sqrt_unique) simp_all

text \<open>
  Claim C1 says that for every normalized distance at or above \<open>1.0\<close> the base colour is
  the wet-sand colour \<open>(0.545, 0.451, 0.333, 1)\<close> exactly. At \<open>1.0\<close> it is. Past \<open>1.0\<close> the
  last branch of the chain keeps interpolating with \<open>t > 1\<close>: pixel \<open>(0, 128)\<close> of the
  1024 by 1024 raster lies at distance \<open>640\<close> from the centre \<open>(512, 512)\<close>, its normalized
  distance is \<open>640 / 501.76\<close>, and its base colour is darker than wet sand in every
  channel. With every random draw equal to \<open>1/2\<close> (no detail fires, zero dither) that
  colour is the final pixel.
\<close>

theorem gradient_past_edge:
  "gradient_color 1 = (0.545, 0.451, 0.333, 1)
   \<and> gradient_color (640 / (512 * 0.98)) = (3793 / 9800, 11839 / 49000, 12447 / 49000, 1)
   \<and> texture_pixel (\<lambda>k. 1 / 2) 1024 512 512 (512 * 0.98) 0 128 0
       = Inr ((3793 / 9800, 11839 / 49000, 12447 / 49000, 1), 2)"
  by (simp add: gradient_color_def texture_pixel_def math_sqrt_def py_div_def sqrt_409600
      random_random_def Let_def)

subsection \<open>Every channel of the raster is in range\<close>

lemma rgba_ok_append:
  "rgba_ok ps \<Longrightarrow> rgba_ok qs \<Longrightarrow> rgba_ok (ps @ qs)"
  by (induction ps rule: rgba_ok.induct) simp_all

lemma rgba_ok_nth:
  "rgba_ok ps \<Longrightarrow> 4 * k + 3 < length ps \<Longrightarrow>
     0 \<le> ps ! (4 * k) \<and> ps ! (4 * k) \<le> 1
     \<and> 0 \<le> ps ! (4 * k + 1) \<and> ps ! (4 * k + 1) \<le> 1
     \<and> 0 \<le> ps ! (4 * k + 2) \<and> ps ! (4 * k + 2) \<le> 1
     \<and> ps ! (4 * k + 3) = 1"
proof (induction ps arbitrary: k rule: rgba_ok.induct)
  case 1
  then show ?case by simp
next
  case (2 r g b a rest)
  show ?case
  proof (cases k)
    case 0
    with "2.prems" show ?thesis by simp
  next
    case (Suc j)
    have ok: "rgba_ok rest" and len: "4 * j + 3 < length rest"
      using "2.prems" Suc by simp_all
    have sh: "4 * k = Suc (Suc (Suc (Suc (4 * j))))"
      using Suc by simp
    from "2.IH" [OF ok len] show ?thesis
      unfolding sh by (simp add: add.commute)
  qed
qed simp_all

lemma noise_overlay_ok:
  "noise_overlay rng (c, n) = (final_color, n1) \<Longrightarrow> rgba_ok (extend [] final_color) \<and> n1 = Suc n"
  by (cases c; cases final_color) (auto simp: random_random_def Let_def)

lemma texture_pixel_ok:
  assumes "texture_pixel rng width center_x center_y max_radius x y n = Inr (final_color, n1)"
  shows "rgba_ok (extend [] final_color)"
proof -
  from assms obtain st where "noise_overlay rng st = (final_color, n1)"
    by (auto simp: texture_pixel_def split: sum.splits)
  then show ?thesis
    using noise_overlay_ok [of rng "fst st" "snd st"] by simp
qed

lemma extend_append: "extend pixels c = pixels @ extend [] c"
  by (cases c) simp

lemma length_extend: "length (extend pixels c) = length pixels + 4"
  by (cases c) simp

lemma pixel_row_ok:
  "pixel_row rng width center_x center_y max_radius y xs (pixels, n) = Inr (pixels1, n1) \<Longrightarrow>
   rgba_ok pixels \<Longrightarrow> rgba_ok pixels1 \<and> length pixels1 = length pixels + 4 * length xs"
proof (induction xs arbitrary: pixels n)
  case Nil
  then show ?case by simp
next
  case (Cons x xs)
  from Cons.prems(1) obtain final_color n0 where
    px: "texture_pixel rng width center_x center_y max_radius x y n = Inr (final_color, n0)"
    and rest: "pixel_row rng width center_x center_y max_radius y xs (extend pixels final_color, n0)
               = Inr (pixels1, n1)"
    by (auto split: sum.splits)
  have "rgba_ok (extend pixels final_color)"
    using Cons.prems(2) texture_pixel_ok [OF px] extend_append [of pixels final_color]
    by (simp add: rgba_ok_append)
  from Cons.IH [OF rest this] show ?case
    by (simp add: length_extend)
qed

lemma pixel_rows_ok:
  "pixel_rows rng width center_x center_y max_radius ys (pixels, n) = Inr (pixels1, n1) \<Longrightarrow>
   rgba_ok pixels \<Longrightarrow> rgba_ok pixels1 \<and> length pixels1 = length pixels + 4 * width * length ys"
proof (induction ys arbitrary: pixels n)
  case Nil
  then show ?case by simp
next
  case (Cons y ys)
  from Cons.prems(1) obtain pixels0 n0 where
    row: "pixel_row rng width center_x center_y max_radius y [0..<width] (pixels, n) = Inr (pixels0, n0)"
    and rest: "pixel_rows rng width center_x center_y max_radius ys (pixels0, n0) = Inr (pixels1, n1)"
    by (auto split: sum.splits)
  from pixel_row_ok [OF row Cons.prems(2)] have
    ok: "rgba_ok pixels0" and len: "length pixels0 = length pixels + 4 * length [0..<width]"
    by simp_all
  from Cons.IH [OF rest ok] len show ?case
    by (simp add: algebra_simps)
qed

text \<open>
  With a nonzero \<^verbatim>\<open>max_radius\<close> no pixel raises, so both loops run to their end.
\<close>

lemma texture_pixel_total:
  assumes "max_radius \<noteq> 0"
  shows "\<exists>final_color n1. texture_pixel rng width center_x center_y max_radius x y n = Inr (final_color, n1)"
proof -
  have "\<not> real_of_int ((int x - int center_x) ^ 2 + (int y - int center_y) ^ 2) < 0"
    by (simp add: not_less)
  with assms show ?thesis
    unfolding texture_pixel_def math_sqrt_def py_div_def
    by (simp del: of_int_add of_int_power)
qed

lemma pixel_row_total:
  assumes "max_radius \<noteq> 0"
  shows "\<exists>st. pixel_row rng width center_x center_y max_radius y xs (pixels, n) = Inr st"
proof (induction xs arbitrary: pixels n)
  case Nil
  show ?case by simp
next
  case (Cons x xs)
  from texture_pixel_total [OF assms] obtain final_color n1 where
    "texture_pixel rng width center_x center_y max_radius x y n = Inr (final_color, n1)"
    by blast
  with Cons.IH [of "extend pixels final_color" n1] show ?case
    by simp
qed

lemma pixel_rows_total:
  assumes "max_radius \<noteq> 0"
  shows "\<exists>st. pixel_rows rng width center_x center_y max_radius ys (pixels, n) = Inr st"
proof (induction ys arbitrary: pixels n)
  case Nil
  show ?case by simp
next
  case (Cons y ys)
  from pixel_row_total [OF assms] obtain pixels0 n0 where
    "pixel_row rng width center_x center_y max_radius y [0..<width] (pixels, n) = Inr (pixels0, n0)"
    by (metis surj_pair)
  with Cons.IH [of pixels0 n0] show ?case
    by simp
qed

lemma terrain_texture_ok:
  assumes "2 \<le> width" and "2 \<le> height"
  shows "\<exists>pixels n1. terrain_texture width height rng n = Inr (pixels, n1)
           \<and> length pixels = 4 * width * height
           \<and> (\<forall>k < width * height.
                 0 \<le> pixels ! (4 * k) \<and> pixels ! (4 * k) \<le> 1
                 \<and> 0 \<le> pixels ! (4 * k + 1) \<and> pixels ! (4 * k + 1) \<le> 1
                 \<and> 0 \<le> pixels ! (4 * k + 2) \<and> pixels ! (4 * k + 2) \<le> 1
                 \<and> pixels ! (4 * k + 3) = 1)"
proof -
  define max_radius where "max_radius = real (min (width div 2) (height div 2)) * 0.98"
  have "0 < min (width div 2) (height div 2)"
    using assms by (simp add: div_greater_zero_iff)
  then have nz: "max_radius \<noteq> 0"
    by (simp add: max_radius_def)
  from pixel_rows_total [OF nz] obtain pixels n1 where
    run: "pixel_rows rng width (width div 2) (height div 2) max_radius [0..<height] ([], n)
          = Inr (pixels, n1)"
    by (metis surj_pair)
  from pixel_rows_ok [OF run] have ok: "rgba_ok pixels" and len: "length pixels = 4 * width * height"
    by simp_all
  have "\<forall>k < width * height.
                 0 \<le> pixels ! (4 * k) \<and> pixels ! (4 * k) \<le> 1
                 \<and> 0 \<le> pixels ! (4 * k + 1) \<and> pixels ! (4 * k + 1) \<le> 1
                 \<and> 0 \<le> pixels ! (4 * k + 2) \<and> pixels ! (4 * k + 2) \<le> 1
                 \<and> pixels ! (4 * k + 3) = 1"
  proof (intro allI impI)
    fix k assume "k < width * height"
    then have "4 * k + 3 < length pixels"
      using len by simp
    from rgba_ok_nth [OF ok this] show
      "0 \<le> pixels ! (4 * k) \<and> pixels ! (4 * k) \<le> 1
                 \<and> 0 \<le> pixels ! (4 * k + 1) \<and> pixels ! (4 * k + 1) \<le> 1
                 \<and> 0 \<le> pixels ! (4 * k + 2) \<and> pixels ! (4 * k + 2) \<le> 1
                 \<and> pixels ! (4 * k + 3) = 1" .
  qed
  with run len show ?thesis
    unfolding terrain_texture_def Let_def max_radius_def by blast
qed

text \<open>
  Claim C7. For every random stream and every starting state the texture is produced,
  and every pixel of it (the corner pixels, whose normalized distance exceeds \<open>1.0\<close>,
  included) has its red, green and blue channels in \<open>[0, 1]\<close> and its alpha channel
  equal to \<open>1\<close>. This holds for \<^verbatim>\<open>create_detailed_terrain_texture\<close> as written (1024 by
  1024) and for every raster of at least 2 by 2 pixels; below that \<^verbatim>\<open>max_radius\<close> is
  \<open>0\<close> and the first pixel raises \<^verbatim>\<open>ZeroDivisionError\<close>.
\<close>

theorem raster_channels_in_range:
  assumes "2 \<le> width" and "2 \<le> height"
  shows "(\<exists>pixels n1. terrain_texture width height rng n = Inr (pixels, n1)
           \<and> length pixels = 4 * width * height
           \<and> (\<forall>k < width * height.
                 0 \<le> pixels ! (4 * k) \<and> pixels ! (4 * k) \<le> 1
                 \<and> 0 \<le> pixels ! (4 * k + 1) \<and> pixels ! (4 * k + 1) \<le> 1
                 \<and> 0 \<le> pixels ! (4 * k + 2) \<and> pixels ! (4 * k + 2) \<le> 1
                 \<and> pixels ! (4 * k + 3) = 1))
       \<and> (\<exists>pixels n1. create_detailed_terrain_texture rng n = Inr (pixels, n1)
           \<and> length pixels = 4 * 1024 * 1024
           \<and> (\<forall>k < 1024 * 1024.
                 0 \<le> pixels ! (4 * k) \<and> pixels ! (4 * k) \<le> 1
                 \<and> 0 \<le> pixels ! (4 * k + 1) \<and> pixels ! (4 * k + 1) \<le> 1
                 \<and> 0 \<le> pixels ! (4 * k + 2) \<and> pixels ! (4 * k + 2) \<le> 1
                 \<and> pixels ! (4 * k + 3) = 1))"
proof
  show "\<exists>pixels n1. terrain_texture width height rng n = Inr (pixels, n1)
           \<and> length pixels = 4 * width * height
           \<and> (\<forall>k < width * height.
                 0 \<le> pixels ! (4 * k) \<and> pixels ! (4 * k) \<le> 1
                 \<and> 0 \<le> pixels ! (4 * k + 1) \<and> pixels ! (4 * k + 1) \<le> 1
                 \<and> 0 \<le> pixels ! (4 * k + 2) \<and> pixels ! (4 * k + 2) \<le> 1
                 \<and> pixels ! (4 * k + 3) = 1)"
    using assms by (rule terrain_texture_ok)
next
  have "(2::nat) \<le> 1024"
    by simp
  from terrain_texture_ok [OF this this, of rng n]
  show "\<exists>pixels n1. create_detailed_terrain_texture rng n = Inr (pixels, n1)
           \<and> length pixels = 4 * 1024 * 1024
           \<and> (\<forall>k < 1024 * 1024.
                 0 \<le> pixels ! (4 * k) \<and> pixels ! (4 * k) \<le> 1
                 \<and> 0 \<le> pixels ! (4 * k + 1) \<and> pixels ! (4 * k + 1) \<le> 1
                 \<and> 0 \<le> pixels ! (4 * k + 2) \<and> pixels ! (4 * k + 2) \<le> 1
                 \<and> pixels ! (4 * k + 3) = 1)"
    unfolding create_detailed_terrain_texture_def .
qed

theorem raster_channels_in_range_witness:
  "(2::nat) \<le> 2
   \<and> (\<exists>pixels n1. terrain_texture 2 2 (\<lambda>k. 1 / 2) 0 = Inr (pixels, n1)
         \<and> length pixels = 16
         \<and> 0 \<le> pixels ! 0 \<and> pixels ! 0 \<le> 1
         \<and> 0 \<le> pixels ! 1 \<and> pixels ! 1 \<le> 1
         \<and> 0 \<le> pixels ! 2 \<and> pixels ! 2 \<le> 1
         \<and> pixels ! 3 = 1
         \<and> pixels ! 15 = 1)"
proof -
  have h: "(2::nat) \<le> 2"
    by simp
  from raster_channels_in_range [OF h h, of "\<lambda>k. 1 / 2" 0]
  obtain pixels n1 where
    run: "terrain_texture 2 2 (\<lambda>k. 1 / 2) 0 = Inr (pixels, n1)"
    and len: "length pixels = 4 * 2 * 2"
    and px: "\<forall>k < 2 * 2.
                 0 \<le> pixels ! (4 * k) \<and> pixels ! (4 * k) \<le> 1
                 \<and> 0 \<le> pixels ! (4 * k + 1) \<and> pixels ! (4 * k + 1) \<le> 1
                 \<and> 0 \<le> pixels ! (4 * k + 2) \<and> pixels ! (4 * k + 2) \<le> 1
                 \<and> pixels ! (4 * k + 3) = 1"
    by blast
  from px have p0: "0 \<le> pixels ! (4 * 0) \<and> pixels ! (4 * 0) \<le> 1
                 \<and> 0 \<le> pixels ! (4 * 0 + 1) \<and> pixels ! (4 * 0 + 1) \<le> 1
                 \<and> 0 \<le> pixels ! (4 * 0 + 2) \<and> pixels ! (4 * 0 + 2) \<le> 1
                 \<and> pixels ! (4 * 0 + 3) = 1"
    by (rule allE [of _ 0]) simp
  from px have p3: "pixels ! (4 * 3 + 3) = 1"
    by (rule allE [of _ 3]) simp
  from run len p0 p3 h show ?thesis
    by (intro conjI exI [of _ pixels] exI [of _ n1]) (simp_all add: numeral_2_eq_2)
qed

subsection \<open>Where the two kinds of detail can act\<close>

lemma grass_outside:
  "\<not> dfc < real width * 0.4 \<Longrightarrow> grass_details rng width dfc (color, n) = (color, n)"
  by (cases color) simp

lemma sand_outside:
  "\<not> dfc > real width * 0.3 \<Longrightarrow> sand_details rng width dfc (color, n) = (color, n)"
  by (cases color) simp

lemma grass_not_fired:
  "\<not> (dfc < real width * 0.4 \<and> rng (n + 1) < 0.002) \<Longrightarrow>
   grass_details rng width dfc (color, n)
     = (color, n + (if dfc < real width * 0.4 then 2 else 0))"
  by (cases color) (auto simp: random_random_def Let_def)

lemma sand_not_fired:
  "\<not> (dfc > real width * 0.3 \<and> rng n < 0.001) \<Longrightarrow>
   sand_details rng width dfc (color, n)
     = (color, n + (if dfc > real width * 0.3 then 1 else 0))"
  by (cases color) (auto simp: random_random_def Let_def)

lemma texture_pixel_stages:
  assumes "max_radius \<noteq> 0"
    and "dfc = sqrt (real_of_int ((int x - int center_x) ^ 2 + (int y - int center_y) ^ 2))"
  shows "texture_pixel rng width center_x center_y max_radius x y n
         = Inr (noise_overlay rng (sand_details rng width dfc
                  (grass_details rng width dfc (gradient_color (dfc / max_radius), n))))"
proof -
  have "\<not> real_of_int ((int x - int center_x) ^ 2 + (int y - int center_y) ^ 2) < 0"
    by (simp add: not_less)
  with assms show ?thesis
    unfolding texture_pixel_def math_sqrt_def py_div_def
    by (simp del: of_int_add of_int_power)
qed

text \<open>
  Claim C8. For every random stream and every pixel, with \<open>dfc\<close> its distance from the
  centre: the grass block leaves colour and generator untouched unless
  \<open>dfc < 0.4 * width\<close>, the sand block unless \<open>dfc > 0.3 * width\<close>; a pixel outside both
  regions is exactly the base colour plus dither, and so is, more generally, every
  pixel on which neither detail fires. On a raster of positive width no pixel is outside
  both regions. In the band between \<open>0.3 * width\<close> and \<open>0.4 * width\<close> (distance \<open>350\<close> at
  width \<open>1024\<close>) there are streams on which both details are applied, grass alone, and
  sand alone.
\<close>

theorem detail_regions:
  assumes "max_radius \<noteq> 0"
    and "dfc = sqrt (real_of_int ((int x - int center_x) ^ 2 + (int y - int center_y) ^ 2))"
  shows "(\<not> dfc < real width * 0.4 \<longrightarrow>
            grass_details rng width dfc (color, n) = (color, n))
       \<and> (\<not> dfc > real width * 0.3 \<longrightarrow>
            sand_details rng width dfc (color, n) = (color, n))
       \<and> (\<not> dfc < real width * 0.4 \<and> \<not> dfc > real width * 0.3 \<longrightarrow>
            texture_pixel rng width center_x center_y max_radius x y n
              = Inr (noise_overlay rng (gradient_color (dfc / max_radius), n)))
       \<and> (\<not> (dfc < real width * 0.4 \<and> rng (n + 1) < 0.002)
            \<and> \<not> (dfc > real width * 0.3
                   \<and> rng (n + (if dfc < real width * 0.4 then 2 else 0)) < 0.001) \<longrightarrow>
            texture_pixel rng width center_x center_y max_radius x y n
              = Inr (noise_overlay rng
                       (gradient_color (dfc / max_radius),
                        n + (if dfc < real width * 0.4 then 2 else 0)
                          + (if dfc > real width * 0.3 then 1 else 0))))
       \<and> (0 < width \<longrightarrow> dfc < real width * 0.4 \<or> dfc > real width * 0.3)
       \<and> sand_details (\<lambda>k. 0) 1024 350 (grass_details (\<lambda>k. 0) 1024 350 ((r, g, b, a), 0))
           = ((min 1 (min 1 (r + 0.06) + 0.12), min 1 (min 1 (g + 0.1) + 0.09),
               min 1 (min 1 (b + 0.04) + 0.06), 1), 5)
       \<and> sand_details (\<lambda>k. if k = 3 then 1 / 2 else 0) 1024 350
            (grass_details (\<lambda>k. if k = 3 then 1 / 2 else 0) 1024 350 ((r, g, b, a), 0))
           = ((min 1 (r + 0.06), min 1 (g + 0.1), min 1 (b + 0.04), 1), 4)
       \<and> sand_details (\<lambda>k. if k = 1 then 1 / 2 else 0) 1024 350
            (grass_details (\<lambda>k. if k = 1 then 1 / 2 else 0) 1024 350 ((r, g, b, a), 0))
           = ((min 1 (r + 0.12), min 1 (g + 0.09), min 1 (b + 0.06), 1), 4)"
proof (intro conjI impI)
  assume "\<not> dfc < real width * 0.4"
  then show "grass_details rng width dfc (color, n) = (color, n)"
    by (rule grass_outside)
next
  assume "\<not> dfc > real width * 0.3"
  then show "sand_details rng width dfc (color, n) = (color, n)"
    by (rule sand_outside)
next
  assume "\<not> dfc < real width * 0.4 \<and> \<not> dfc > real width * 0.3"
  then show "texture_pixel rng width center_x center_y max_radius x y n
              = Inr (noise_overlay rng (gradient_color (dfc / max_radius), n))"
    unfolding texture_pixel_stages [OF assms]
    by (simp add: grass_outside sand_outside)
next
  assume h: "\<not> (dfc < real width * 0.4 \<and> rng (n + 1) < 0.002)
            \<and> \<not> (dfc > real width * 0.3
                   \<and> rng (n + (if dfc < real width * 0.4 then 2 else 0)) < 0.001)"
  then have g: "grass_details rng width dfc (gradient_color (dfc / max_radius), n)
                = (gradient_color (dfc / max_radius), n + (if dfc < real width * 0.4 then 2 else 0))"
    by (intro grass_not_fired) blast
  from h have s: "sand_details rng width dfc
                    (gradient_color (dfc / max_radius), n + (if dfc < real width * 0.4 then 2 else 0))
                = (gradient_color (dfc / max_radius),
                   n + (if dfc < real width * 0.4 then 2 else 0)
                     + (if dfc > real width * 0.3 then 1 else 0))"
    by (intro sand_not_fired) blast
  show "texture_pixel rng width center_x center_y max_radius x y n
              = Inr (noise_overlay rng
                       (gradient_color (dfc / max_radius),
                        n + (if dfc < real width * 0.4 then 2 else 0)
                          + (if dfc > real width * 0.3 then 1 else 0)))"
    unfolding texture_pixel_stages [OF assms] g s ..
next
  assume "0 < width"
  then have "real width * 0.3 < real width * 0.4"
    by simp
  then show "dfc < real width * 0.4 \<or> dfc > real width * 0.3"
    by linarith
next
  show "sand_details (\<lambda>k. 0) 1024 350 (grass_details (\<lambda>k. 0) 1024 350 ((r, g, b, a), 0))
           = ((min 1 (min 1 (r + 0.06) + 0.12), min 1 (min 1 (g + 0.1) + 0.09),
               min 1 (min 1 (b + 0.04) + 0.06), 1), 5)"
    by (simp add: random_random_def Let_def)
next
  show "sand_details (\<lambda>k. if k = 3 then 1 / 2 else 0) 1024 350
            (grass_details (\<lambda>k. if k = 3 then 1 / 2 else 0) 1024 350 ((r, g, b, a), 0))
           = ((min 1 (r + 0.06), min 1 (g + 0.1), min 1 (b + 0.04), 1), 4)"
    by (simp add: random_random_def Let_def)
next
  show "sand_details (\<lambda>k. if k = 1 then 1 / 2 else 0) 1024 350
            (grass_details (\<lambda>k. if k = 1 then 1 / 2 else 0) 1024 350 ((r, g, b, a), 0))
           = ((min 1 (r + 0.12), min 1 (g + 0.09), min 1 (b + 0.06), 1), 4)"
    by (simp add: random_random_def Let_def)
qed

theorem detail_regions_witness:
  "(512 * 0.98 :: real) \<noteq> 0
   \<and> (640 :: real) = sqrt (real_of_int ((int 0 - int 512) ^ 2 + (int 128 - int 512) ^ 2))
   \<and> \<not> (640 :: real) < real 1024 * 0.4
   \<and> grass_details (\<lambda>k. 1 / 2) 1024 640 ((0.5, 0.5, 0.5, 1), 0) = ((0.5, 0.5, 0.5, 1), 0)
   \<and> \<not> ((640 :: real) < real 1024 * 0.4 \<and> (1 / 2 :: real) < 0.002)
   \<and> \<not> ((640 :: real) > real 1024 * 0.3 \<and> (1 / 2 :: real) < 0.001)
   \<and> texture_pixel (\<lambda>k. 1 / 2) 1024 512 512 (512 * 0.98) 0 128 0
       = Inr (noise_overlay (\<lambda>k. 1 / 2) (gradient_color (640 / (512 * 0.98)), 1))
   \<and> (100 :: real) = sqrt (real_of_int ((int 612 - int 512) ^ 2 + (int 512 - int 512) ^ 2))
   \<and> \<not> (100 :: real) > real 1024 * 0.3
   \<and> sand_details (\<lambda>k. 1 / 2) 1024 100 ((0.5, 0.5, 0.5, 1), 0) = ((0.5, 0.5, 0.5, 1), 0)
   \<and> (1 :: real) \<noteq> 0
   \<and> (0 :: real) = sqrt (real_of_int ((int 0 - int 0) ^ 2 + (int 0 - int 0) ^ 2))
   \<and> \<not> (0 :: real) < real 0 * 0.4 \<and> \<not> (0 :: real) > real 0 * 0.3
   \<and> texture_pixel (\<lambda>k. 1 / 2) 0 0 0 1 0 0 0
       = Inr (noise_overlay (\<lambda>k. 1 / 2) (gradient_color (0 / 1), 0))
   \<and> (0 :: nat) < 1024
   \<and> ((640 :: real) < real 1024 * 0.4 \<or> (640 :: real) > real 1024 * 0.3)"
proof -
  have m1: "(512 * 0.98 :: real) \<noteq> 0"
    by simp
  have d1: "(640 :: real) = sqrt (real_of_int ((int 0 - int 512) ^ 2 + (int 128 - int 512) ^ 2))"
    by (simp add: sqrt_409600)
  have d2: "(100 :: real) = sqrt (real_of_int ((int 612 - int 512) ^ 2 + (int 512 - int 512) ^ 2))"
    by simp
  have m3: "(1 :: real) \<noteq> 0"
    by simp
  have d3: "(0 :: real) = sqrt (real_of_int ((int 0 - int 0) ^ 2 + (int 0 - int 0) ^ 2))"
    by simp
  note far = detail_regions [OF m1 d1, of 1024 "\<lambda>k. 1 / 2" "(0.5, 0.5, 0.5, 1)" 0]
  note near = detail_regions [OF m1 d2, of 1024 "\<lambda>k. 1 / 2" "(0.5, 0.5, 0.5, 1)" 0]
  note none = detail_regions [OF m3 d3, of 0 "\<lambda>k. 1 / 2" "(0.5, 0.5, 0.5, 1)" 0]
  have f1: "grass_details (\<lambda>k. 1 / 2) 1024 640 ((0.5, 0.5, 0.5, 1), 0) = ((0.5, 0.5, 0.5, 1), 0)"
    using far [THEN conjunct1] by simp
  have f2: "texture_pixel (\<lambda>k. 1 / 2) 1024 512 512 (512 * 0.98) 0 128 0
       = Inr (noise_overlay (\<lambda>k. 1 / 2) (gradient_color (640 / (512 * 0.98)), 1))"
    using far [THEN conjunct2, THEN conjunct2, THEN conjunct2, THEN conjunct1] by simp
  have f3: "sand_details (\<lambda>k. 1 / 2) 1024 100 ((0.5, 0.5, 0.5, 1), 0) = ((0.5, 0.5, 0.5, 1), 0)"
    using near [THEN conjunct2, THEN conjunct1] by simp
  have f4: "texture_pixel (\<lambda>k. 1 / 2) 0 0 0 1 0 0 0
       = Inr (noise_overlay (\<lambda>k. 1 / 2) (gradient_color (0 / 1), 0))"
    using none [THEN conjunct2, THEN conjunct2, THEN conjunct1] by simp
  have f5: "(640 :: real) < real 1024 * 0.4 \<or> (640 :: real) > real 1024 * 0.3"
    using far [THEN conjunct2, THEN conjunct2, THEN conjunct2, THEN conjunct2, THEN conjunct1]
    by simp
  have g1: "\<not> (640 :: real) < real 1024 * 0.4"
    by simp
  have g2: "\<not> (100 :: real) > real 1024 * 0.3"
    by simp
  have g3: "\<not> (0 :: real) < real 0 * 0.4 \<and> \<not> (0 :: real) > real 0 * 0.3"
    by simp
  have g4: "\<not> ((640 :: real) < real 1024 * 0.4 \<and> (1 / 2 :: real) < 0.002)
            \<and> \<not> ((640 :: real) > real 1024 * 0.3 \<and> (1 / 2 :: real) < 0.001)"
    by simp
  have g5: "(0 :: nat) < 1024"
    by simp
  show ?thesis
    using m1 d1 g1 f1 g4 f2 d2 g2 f3 m3 d3 g3 f4 g5 f5 by blast
qed

subsection \<open>The texture depends on the random stream only\<close>

lemma grass_details_shift:
  "grass_details rng width d (c, n + m)
     = apsnd ((+) n) (grass_details (\<lambda>k. rng (n + k)) width d (c, m))"
  by (cases c) (simp add: random_random_def Let_def)

lemma sand_details_shift:
  "sand_details rng width d (c, n + m)
     = apsnd ((+) n) (sand_details (\<lambda>k. rng (n + k)) width d (c, m))"
  by (cases c) (simp add: random_random_def Let_def)

lemma noise_overlay_shift:
  "noise_overlay rng (c, n + m)
     = apsnd ((+) n) (noise_overlay (\<lambda>k. rng (n + k)) (c, m))"
  by (cases c) (simp add: random_random_def Let_def)

lemma stages_shift:
  "noise_overlay rng (sand_details rng width d (grass_details rng width d (c, n + m)))
     = apsnd ((+) n)
         (noise_overlay (\<lambda>k. rng (n + k))
            (sand_details (\<lambda>k. rng (n + k)) width d
               (grass_details (\<lambda>k. rng (n + k)) width d (c, m))))"
proof -
  obtain c1 m1 where g: "grass_details (\<lambda>k. rng (n + k)) width d (c, m) = (c1, m1)"
    by (cases "grass_details (\<lambda>k. rng (n + k)) width d (c, m)")
  obtain c2 m2 where s: "sand_details (\<lambda>k. rng (n + k)) width d (c1, m1) = (c2, m2)"
    by (cases "sand_details (\<lambda>k. rng (n + k)) width d (c1, m1)")
  show ?thesis
    by (simp add: grass_details_shift g sand_details_shift s noise_overlay_shift)
qed

lemma texture_pixel_shift:
  "texture_pixel rng width center_x center_y max_radius x y (n + m)
     = map_sum id (apsnd ((+) n))
         (texture_pixel (\<lambda>k. rng (n + k)) width center_x center_y max_radius x y m)"
  unfolding texture_pixel_def
  by (simp add: stages_shift split: sum.splits)

lemma pixel_row_shift:
  "pixel_row rng width center_x center_y max_radius y xs (pixels, n + m)
     = map_sum id (apsnd ((+) n))
         (pixel_row (\<lambda>k. rng (n + k)) width center_x center_y max_radius y xs (pixels, m))"
proof (induction xs arbitrary: pixels m)
  case Nil
  show ?case by simp
next
  case (Cons x xs)
  show ?case
  proof (cases "texture_pixel (\<lambda>k. rng (n + k)) width center_x center_y max_radius x y m")
    case (Inl e)
    then show ?thesis
      by (simp add: texture_pixel_shift)
  next
    case (Inr r)
    obtain final_color m1 where r: "r = (final_color, m1)"
      by (cases r)
    show ?thesis
      using Inr r Cons.IH [of "extend pixels final_color" m1]
      by (simp add: texture_pixel_shift)
  qed
qed

lemma pixel_rows_shift:
  "pixel_rows rng width center_x center_y max_radius ys (pixels, n + m)
     = map_sum id (apsnd ((+) n))
         (pixel_rows (\<lambda>k. rng (n + k)) width center_x center_y max_radius ys (pixels, m))"
proof (induction ys arbitrary: pixels m)
  case Nil
  show ?case by simp
next
  case (Cons y ys)
  show ?case
  proof (cases "pixel_row (\<lambda>k. rng (n + k)) width center_x center_y max_radius y [0..<width] (pixels, m)")
    case (Inl e)
    then show ?thesis
      by (simp add: pixel_row_shift)
  next
    case (Inr r)
    obtain pixels1 m1 where r: "r = (pixels1, m1)"
      by (cases r)
    show ?thesis
      using Inr r Cons.IH [of pixels1 m1]
      by (simp add: pixel_row_shift)
  qed
qed

lemma terrain_texture_shift:
  "terrain_texture width height rng n
     = map_sum id (apsnd ((+) n)) (terrain_texture width height (\<lambda>k. rng (n + k)) 0)"
  using pixel_rows_shift [of rng width _ _ _ _ _ n 0]
  by (simp add: terrain_texture_def Let_def)

lemma drop_offset:
  "map_sum id (apsnd (\<lambda>m. m - n)) (map_sum id (apsnd ((+) n)) r) = (r :: error + (real list \<times> nat))"
  by (cases r) (auto simp: apsnd_def map_prod_def split: prod.splits)

lemma terrain_texture_same_stream:
  assumes "\<forall>k. rng1 (n1 + k) = rng2 (n2 + k)"
  shows "map_sum id (apsnd (\<lambda>m. m - n1)) (terrain_texture width height rng1 n1)
       = map_sum id (apsnd (\<lambda>m. m - n2)) (terrain_texture width height rng2 n2)"
proof -
  have eq: "(\<lambda>k. rng1 (n1 + k)) = (\<lambda>k. rng2 (n2 + k))"
    using assms by (intro ext) simp
  show ?thesis
    unfolding terrain_texture_shift [of width height rng1 n1]
      terrain_texture_shift [of width height rng2 n2] drop_offset eq ..
qed

text \<open>
  Claim C9. The texture is a function of the dimensions and of the random values still
  to come: two runs whose streams agree from their starting states on (the same seed)
  end alike, with the same error or with the same pixel buffer after the same number of
  draws. This holds for every width and height and for
  \<^verbatim>\<open>create_detailed_terrain_texture\<close> itself.
\<close>

theorem texture_deterministic:
  assumes "\<forall>k. rng1 (n1 + k) = rng2 (n2 + k)"
  shows "map_sum id (apsnd (\<lambda>m. m - n1)) (terrain_texture width height rng1 n1)
         = map_sum id (apsnd (\<lambda>m. m - n2)) (terrain_texture width height rng2 n2)
       \<and> map_sum id (apsnd (\<lambda>m. m - n1)) (create_detailed_terrain_texture rng1 n1)
         = map_sum id (apsnd (\<lambda>m. m - n2)) (create_detailed_terrain_texture rng2 n2)"
  using assms
  by (simp add: create_detailed_terrain_texture_def terrain_texture_same_stream)

theorem texture_deterministic_witness:
  "(\<forall>k. (\<lambda>i::nat. if i < 3 then 0 else 1 / 2) (3 + k) = (\<lambda>i::nat. 1 / 2 :: real) (0 + k))
   \<and> map_sum id (apsnd (\<lambda>m. m - 3)) (terrain_texture 4 4 (\<lambda>i. if i < 3 then 0 else 1 / 2) 3)
     = map_sum id (apsnd (\<lambda>m. m - 0)) (terrain_texture 4 4 (\<lambda>i. 1 / 2) 0)
   \<and> map_sum id (apsnd (\<lambda>m. m - 3))
       (create_detailed_terrain_texture (\<lambda>i. if i < 3 then 0 else 1 / 2) 3)
     = map_sum id (apsnd (\<lambda>m. m - 0)) (create_detailed_terrain_texture (\<lambda>i. 1 / 2) 0)"
  using texture_deterministic [of "\<lambda>i. if i < 3 then 0 else 1 / 2" 3 "\<lambda>i. 1 / 2" 0 4 4]
  by simp

end
